theory Spec2Isabelle
  imports Main "HOL-Library.Word" "HOL-Library.Signed_Division"
begin

section \<open>swamp: the credential-renewal chain of \<^verbatim>\<open>swamp.go\<close>\<close>

text \<open>
  The program talks to four collaborators: the STS identity provider, the terminal
  (standard input, standard output, the error stream), the profile writer and the
  file system. The model threads one \<open>world\<close> value through every function of
  \<^verbatim>\<open>swamp.go\<close>: it holds the credentials store, the files, the unread operator
  input and a chronological log of every interaction together with its answer.
  The answers of the collaborators are parameters (\<open>env\<close>); each may depend on the
  whole world at the moment of the call, so that the provider may for instance
  accept a profile only after it has been written.
\<close>

subsection \<open>Data\<close>

type_synonym int64 = "64 word"

text \<open>A Go \<^verbatim>\<open>error\<close> is kept as its rendering under \<^verbatim>\<open>%v\<close>.\<close>

type_synonym go_error = string

text \<open>\<^verbatim>\<open>sts.Credentials\<close>.\<close>

record credentials =
  accessKeyId :: string
  secretAccessKey :: string
  sessionToken :: string
  expiration :: nat

text \<open>
  The fields of \<^verbatim>\<open>SwampConfig\<close> that \<^verbatim>\<open>swamp.go\<close> reads. The type itself, its flag
  parsing and \<^verbatim>\<open>Validate\<close> are declared in another file of the repository; the model
  takes the resolved, validated configuration as a parameter. \<open>roleArn\<close> stands for
  the value of \<^verbatim>\<open>config.GetRoleArn()\<close>.
\<close>

record config =
  profile :: string
  intermediateProfile :: string
  targetProfile :: string
  region :: string
  tokenSerialNumber :: string
  intermediateDuration :: int64
  targetDuration :: int64
  roleArn :: string
  useInstanceProfile :: bool
  exportProfile :: bool
  exportFile :: string
  renew :: bool

text \<open>
  \<^verbatim>\<open>session.Options\<close> as the program builds them: a region with a profile name
  (\<^verbatim>\<open>NewSessionWithOptions\<close>), or nothing at all (\<^verbatim>\<open>NewSession()\<close>).
\<close>

datatype session_options = ProfileOptions string string | DefaultOptions

text \<open>A session: the options it was made from and its \<^verbatim>\<open>Config.Region\<close>.\<close>

record session =
  sessOptions :: session_options
  sessRegion :: "string option"

text \<open>The log: every call that leaves the process, with its arguments and its answer.\<close>

datatype event =
    NewSessionEv session_options "go_error + string option"
  | GetCallerIdentityEv session "go_error + string"
  | GetSessionTokenEv session int64 string "string option" "go_error + credentials"
  | AssumeRoleEv session string string int64 "go_error + credentials"
  | WriteProfileEv credentials string "string option"
  | Stdout string
  | Stderr string
  | ReadStdin "go_error + string"
  | CreateFileEv string "go_error option"
  | WriteFileEv string string nat
  | SleepEv int64

record world =
  store :: "string \<rightharpoonup> credentials \<times> string option"
  files :: "string \<rightharpoonup> string"
  stdin :: "(go_error + string) list"
  trace :: "event list"

text \<open>
  The collaborators' answers. \<open>newSessionApi\<close> answers with the session's region or with
  the error of \<^verbatim>\<open>session.NewSession\<close>/\<^verbatim>\<open>NewSessionWithOptions\<close>; \<open>getCallerIdentityApi\<close> answers
  with the caller's ARN; \<open>createFileApi\<close> answers with the error of \<^verbatim>\<open>os.Create\<close>, if any;
  \<open>fprintfApi\<close> answers with the number of bytes of the given text that \<^verbatim>\<open>fmt.Fprintf\<close>
  gets into the file of the given path (all of them, unless the write fails).
\<close>

record env =
  newSessionApi :: "world \<Rightarrow> session_options \<Rightarrow> go_error + string option"
  getCallerIdentityApi :: "world \<Rightarrow> session \<Rightarrow> go_error + string"
  getSessionTokenApi ::
    "world \<Rightarrow> session \<Rightarrow> int64 \<Rightarrow> string \<Rightarrow> string option \<Rightarrow> go_error + credentials"
  assumeRoleApi :: "world \<Rightarrow> session \<Rightarrow> string \<Rightarrow> string \<Rightarrow> int64 \<Rightarrow> go_error + credentials"
  createFileApi :: "world \<Rightarrow> string \<Rightarrow> go_error option"
  fprintfApi :: "world \<Rightarrow> string \<Rightarrow> string \<Rightarrow> nat"

text \<open>
  How a function of the program ends: it returns a value, or the process stops there,
  by \<^verbatim>\<open>os.Exit\<close> or by a panic.
\<close>

datatype outcome = Exit nat | Panic go_error

datatype 'a res = Ret 'a world | Halt outcome world

definition andThen :: "'a res \<Rightarrow> ('a \<Rightarrow> world \<Rightarrow> 'b res) \<Rightarrow> 'b res" where
  "andThen r f = (case r of Ret a w \<Rightarrow> f a w | Halt out w \<Rightarrow> Halt out w)"

definition emit :: "event \<Rightarrow> world \<Rightarrow> world" where
  "emit e w = w\<lparr>trace := trace w @ [e]\<rparr>"

subsection \<open>Library functions the program calls\<close>

definition LF :: char where
  "LF = CHR 0x0A"

definition CR :: char where
  "CR = CHR 0x0D"

text \<open>\<^verbatim>\<open>strings.Split(s, sep)\<close> for a one-character separator: always at least one part.\<close>

fun split :: "string \<Rightarrow> char \<Rightarrow> string list" where
  "split [] sep = [[]]"
| "split (x # xs) sep =
     (if x = sep then [] # split xs sep
      else (let r = split xs sep in (x # hd r) # tl r))"

text \<open>\<^verbatim>\<open>strings.Trim(s, cutset)\<close>: leading, then trailing characters of the cutset go.\<close>

definition trim :: "string \<Rightarrow> string \<Rightarrow> string" where
  "trim s cutset =
     rev (dropWhile (\<lambda>c. c \<in> set cutset) (rev (dropWhile (\<lambda>c. c \<in> set cutset) s)))"

text \<open>
  \<^verbatim>\<open>bufio.Reader.ReadString('\n')\<close> on standard input. The terminal hands over one line
  per read; \<open>stdin\<close> lists what each read will return, and past its end the read
  fails with end of file.
\<close>

definition readString :: "world \<Rightarrow> (go_error + string) \<times> world" where
  "readString w =
     (case stdin w of
        [] \<Rightarrow> (Inl ''EOF'', emit (ReadStdin (Inl ''EOF'')) w)
      | r # rs \<Rightarrow> (r, emit (ReadStdin r) (w\<lparr>stdin := rs\<rparr>)))"

text \<open>
  \<^verbatim>\<open>session.Must(session.NewSession...(options))\<close>: \<^verbatim>\<open>Must\<close> panics with the error
  when the session cannot be made.
\<close>

definition mustSession :: "env \<Rightarrow> session_options \<Rightarrow> world \<Rightarrow> session res" where
  "mustSession env options w =
     (let r = newSessionApi env w options;
          w1 = emit (NewSessionEv options r) w
      in case r of
           Inl err \<Rightarrow> Halt (Panic err) w1
         | Inr reg \<Rightarrow> Ret \<lparr>sessOptions = options, sessRegion = reg\<rparr> w1)"

text \<open>
  Modelled from the spec: \<^verbatim>\<open>ProfileWriter.writeProfile\<close>, whose file is not among the
  sources. The spec's Credential Sink: "writing the same profile name twice fully
  overwrites the previous entry (no merge, no duplicate entries)"; the store maps a
  profile name to its credentials and region.
\<close>

definition writeProfile :: "credentials \<Rightarrow> string \<Rightarrow> string option \<Rightarrow> world \<Rightarrow> world" where
  "writeProfile cred name reg w =
     emit (WriteProfileEv cred name reg) (w\<lparr>store := (store w)(name \<mapsto> (cred, reg))\<rparr>)"

subsection \<open>The functions of \<^verbatim>\<open>swamp.go\<close>\<close>

text \<open>\<^verbatim>\<open>die\<close>: the message, a colon and the error on the error stream, then exit code 1.\<close>

definition die :: "string \<Rightarrow> go_error \<Rightarrow> world \<Rightarrow> 'a res" where
  "die msg err w = Halt (Exit 1) (emit (Stderr (msg @ '': '' @ err @ [LF])) w)"

definition getCallerId :: "env \<Rightarrow> session \<Rightarrow> world \<Rightarrow> string res" where
  "getCallerId env sess w =
     (let r = getCallerIdentityApi env w sess;
          w1 = emit (GetCallerIdentityEv sess r) w
      in case r of
           Inl err \<Rightarrow> die ''Error fetching caller id'' err w1
         | Inr arn \<Rightarrow> Ret arn w1)"

definition mfaPrompt :: "string \<Rightarrow> string" where
  "mfaPrompt tokenSerial = ''Enter mfa token for '' @ tokenSerial @ '': ''"

definition getTokenCode :: "string \<Rightarrow> world \<Rightarrow> string option res" where
  "getTokenCode tokenSerial w =
     (if tokenSerial = [] then Ret None w
      else
        (let w1 = emit (Stdout (mfaPrompt tokenSerial)) w
         in case readString w1 of
              (Inl err, w2) \<Rightarrow> die ''Error reading mfa token'' err w2
            | (Inr tokenCode, w2) \<Rightarrow> Ret (Some (trim tokenCode [CHR '' '', CR, LF])) w2))"

definition validateSessionToken :: "env \<Rightarrow> session_options \<Rightarrow> world \<Rightarrow> bool res" where
  "validateSessionToken env options w =
     andThen (mustSession env options w) (\<lambda>sess w1.
       (let r = getCallerIdentityApi env w1 sess
        in Ret (case r of Inl err \<Rightarrow> False | Inr arn \<Rightarrow> True)
               (emit (GetCallerIdentityEv sess r) w1)))"

definition getSessionToken :: "env \<Rightarrow> session_options \<Rightarrow> config \<Rightarrow> world \<Rightarrow> credentials res" where
  "getSessionToken env options c w =
     andThen (mustSession env options w) (\<lambda>sess w1.
       andThen (getTokenCode (tokenSerialNumber c) w1) (\<lambda>code w2.
         (let r = getSessionTokenApi env w2 sess (intermediateDuration c)
                    (tokenSerialNumber c) code;
              w3 = emit (GetSessionTokenEv sess (intermediateDuration c)
                    (tokenSerialNumber c) code r) w2
          in case r of
               Inl err \<Rightarrow> die ''Error getting session token'' err w3
             | Inr cred \<Rightarrow> Ret cred w3)))"

definition stillValidMessage :: "string \<Rightarrow> string" where
  "stillValidMessage name = ''Session token for profile '' @ name @ '' is still valid'' @ [LF]"

definition ensureSessionTokenProfile :: "env \<Rightarrow> config \<Rightarrow> world \<Rightarrow> unit res" where
  "ensureSessionTokenProfile env c w =
     andThen (validateSessionToken env (ProfileOptions (region c) (intermediateProfile c)) w)
       (\<lambda>valid w1.
         if valid then Ret () (emit (Stdout (stillValidMessage (profile c))) w1)
         else
           andThen (getSessionToken env (ProfileOptions (region c) (profile c)) c w1)
             (\<lambda>cred w2.
               Ret () (writeProfile cred (intermediateProfile c) (Some (region c)) w2)))"

definition assumeRole :: "env \<Rightarrow> session \<Rightarrow> string \<Rightarrow> string \<Rightarrow> int64 \<Rightarrow> world \<Rightarrow> credentials res" where
  "assumeRole env sess arn roleSessionName duration w =
     (let r = assumeRoleApi env w sess arn roleSessionName duration;
          w1 = emit (AssumeRoleEv sess arn roleSessionName duration r) w
      in case r of
           Inl err \<Rightarrow> die ''Error assuming role'' err w1
         | Inr cred \<Rightarrow> Ret cred w1)"

text \<open>Lines 103 and 104: the last of the parts of the caller's ARN between slashes.\<close>

definition roleSessionNameOf :: "string \<Rightarrow> string" where
  "roleSessionNameOf userId =
     (let parts = split userId (CHR ''/'') in parts ! (length parts - 1))"

definition ensureTargetProfile :: "env \<Rightarrow> config \<Rightarrow> session \<Rightarrow> world \<Rightarrow> unit res" where
  "ensureTargetProfile env c sess w =
     andThen (getCallerId env sess w) (\<lambda>userId w1.
       andThen (assumeRole env sess (roleArn c) (roleSessionNameOf userId) (targetDuration c) w1)
         (\<lambda>cred w2. Ret () (writeProfile cred (targetProfile c) (sessRegion sess) w2)))"

definition exportDescriptor :: "string \<Rightarrow> string" where
  "exportDescriptor name =
     ''export AWS_PROFILE='' @ name @ [LF] @ ''unset AWS_ACCESS_KEY_ID'' @ [LF]
       @ ''unset AWS_SECRET_ACCESS_KEY'' @ [LF]"

text \<open>
  \<^verbatim>\<open>os.Create\<close> fails, or leaves the file empty. \<^verbatim>\<open>fmt.Fprintf\<close> then gets the
  descriptor into the file, or only the first bytes of it when the write fails; the
  program looks neither at what \<^verbatim>\<open>Fprintf\<close> returns nor at the error of the deferred
  \<^verbatim>\<open>Close\<close>, and returns.
\<close>

definition writeProfileToFile :: "env \<Rightarrow> config \<Rightarrow> world \<Rightarrow> unit res" where
  "writeProfileToFile env c w =
     (let r = createFileApi env w (exportFile c);
          w1 = emit (CreateFileEv (exportFile c) r) w
      in case r of
           Some err \<Rightarrow> die ''Error writing target profile to export file'' err w1
         | None \<Rightarrow>
             (let w2 = w1\<lparr>files := (files w1)(exportFile c \<mapsto> [])\<rparr>;
                  n = fprintfApi env w2 (exportFile c) (exportDescriptor (targetProfile c))
              in Ret ()
                   (emit (WriteFileEv (exportFile c) (exportDescriptor (targetProfile c)) n)
                     (w2\<lparr>files := (files w2)(exportFile c \<mapsto>
                        take n (exportDescriptor (targetProfile c)))\<rparr>))))"

subsection \<open>\<^verbatim>\<open>main\<close>\<close>

text \<open>Lines 127 to 132: the profile the assume-role step signs in with.\<close>

definition baseProfile :: "config \<Rightarrow> string" where
  "baseProfile c = (if tokenSerialNumber c \<noteq> [] then intermediateProfile c else profile c)"

text \<open>Lines 136 to 139 of the loop body.\<close>

definition intermediateStep :: "env \<Rightarrow> config \<Rightarrow> world \<Rightarrow> unit res" where
  "intermediateStep env c w =
     (if tokenSerialNumber c \<noteq> [] then ensureSessionTokenProfile env c w else Ret () w)"

text \<open>Lines 141 to 148.\<close>

definition targetSession :: "env \<Rightarrow> config \<Rightarrow> world \<Rightarrow> session res" where
  "targetSession env c w =
     (if useInstanceProfile c then mustSession env DefaultOptions w
      else mustSession env (ProfileOptions (region c) (baseProfile c)) w)"

text \<open>Lines 141 to 154: the assume-role step and the export.\<close>

definition targetStep :: "env \<Rightarrow> config \<Rightarrow> world \<Rightarrow> unit res" where
  "targetStep env c w =
     andThen (targetSession env c w) (\<lambda>sess w1.
       andThen (ensureTargetProfile env c sess w1) (\<lambda>_ w2.
         if exportProfile c then writeProfileToFile env c w2 else Ret () w2))"

text \<open>One pass through the body of the loop, up to the test of \<^verbatim>\<open>renew\<close>.\<close>

definition chain :: "env \<Rightarrow> config \<Rightarrow> world \<Rightarrow> unit res" where
  "chain env c w = andThen (intermediateStep env c w) (\<lambda>_ w1. targetStep env c w1)"

text \<open>
  Go's \<^verbatim>\<open>/\<close> on \<^verbatim>\<open>int64\<close> truncates towards zero. \<^verbatim>\<open>time.Duration\<close> is an \<^verbatim>\<open>int64\<close> of
  nanoseconds, \<^verbatim>\<open>time.Second\<close> is \<open>10\<^sup>9\<close> of them, and the product wraps around.
\<close>

definition goDiv :: "int64 \<Rightarrow> int64 \<Rightarrow> int64" where
  "goDiv a b = word_of_int (sint a sdiv sint b)"

definition timeSecond :: int64 where
  "timeSecond = 1000000000"

text \<open>Line 159: the argument of \<^verbatim>\<open>time.Sleep\<close>.\<close>

definition sleepDuration :: "config \<Rightarrow> int64" where
  "sleepDuration c = timeSecond * goDiv (targetDuration c) 2"

text \<open>
  Lines 156 to 159: \<open>None\<close> is the \<^verbatim>\<open>break\<close>, \<open>Some d\<close> the sleep of \<open>d\<close> nanoseconds
  before the next pass.
\<close>

definition loopDecision :: "config \<Rightarrow> int64 option" where
  "loopDecision c = (if \<not> renew c then None else Some (sleepDuration c))"

text \<open>
  The loop of \<^verbatim>\<open>main\<close>, which runs for ever when \<^verbatim>\<open>renew\<close> is set and nothing fails.
  \<open>mainLoop n\<close> runs at most \<open>n\<close> passes: the first component of its result is how the process
  ended, or \<open>None\<close> when it is still running after \<open>n\<close> passes and their sleeps; the
  second is the world at that moment. Leaving the loop ends \<^verbatim>\<open>main\<close>: exit code 0.
\<close>

fun mainLoop :: "nat \<Rightarrow> env \<Rightarrow> config \<Rightarrow> world \<Rightarrow> outcome option \<times> world" where
  "mainLoop 0 env c w = (None, w)"
| "mainLoop (Suc n) env c w =
     (case chain env c w of
        Halt out w1 \<Rightarrow> (Some out, w1)
      | Ret _ w1 \<Rightarrow>
          (case loopDecision c of
             None \<Rightarrow> (Some (Exit 0), w1)
           | Some d \<Rightarrow> mainLoop n env c (emit (SleepEv d) w1)))"

subsection \<open>Observing a run\<close>

text \<open>The world in which a function left the process, however it ended.\<close>

definition worldOf :: "'a res \<Rightarrow> world" where
  "worldOf r = (case r of Ret a w \<Rightarrow> w | Halt out w \<Rightarrow> w)"

text \<open>What was logged between the world \<open>w\<close> and a later world \<open>w'\<close>.\<close>

definition newEvents :: "world \<Rightarrow> world \<Rightarrow> event list" where
  "newEvents w w' = drop (length (trace w)) (trace w')"

text \<open>The credentials a provider call returned, and what was handed to the profile writer.\<close>

fun issued :: "event \<Rightarrow> credentials option" where
  "issued (GetSessionTokenEv sess d serial code (Inr cred)) = Some cred"
| "issued e = None"

fun assumed :: "event \<Rightarrow> credentials option" where
  "assumed (AssumeRoleEv sess arn name d (Inr cred)) = Some cred"
| "assumed e = None"

fun written :: "event \<Rightarrow> (string \<times> credentials) option" where
  "written (WriteProfileEv cred name reg) = Some (name, cred)"
| "written e = None"

text \<open>
  The events of the intermediate hop: a session-token call, anything printed on
  standard output (the prompt, the status message), a read of operator input, and a
  session made for another profile than the one given.
\<close>

fun intermediateEvent :: "session_options \<Rightarrow> event \<Rightarrow> bool" where
  "intermediateEvent opts (GetSessionTokenEv sess d serial code r) = True"
| "intermediateEvent opts (Stdout s) = True"
| "intermediateEvent opts (ReadStdin r) = True"
| "intermediateEvent opts (NewSessionEv options r) = (options \<noteq> opts)"
| "intermediateEvent opts (GetCallerIdentityEv sess r) = (sessOptions sess \<noteq> opts)"
| "intermediateEvent opts e = False"

subsection \<open>A sample configuration and sample collaborators\<close>

definition emptyWorld :: world where
  "emptyWorld = \<lparr>store = Map.empty, files = Map.empty, stdin = [], trace = []\<rparr>"

definition sampleCredentials :: "string \<Rightarrow> credentials" where
  "sampleCredentials k =
     \<lparr>accessKeyId = k, secretAccessKey = ''secret'', sessionToken = ''token'', expiration = 0\<rparr>"

definition sampleConfig :: config where
  "sampleConfig =
     \<lparr>profile = ''base'', intermediateProfile = ''mfa'', targetProfile = ''target'',
      region = ''eu-west-1'', tokenSerialNumber = ''arn:aws:iam::123:mfa/alice'',
      intermediateDuration = 43200, targetDuration = 3600,
      roleArn = ''arn:aws:iam::456:role/admin'', useInstanceProfile = False,
      exportProfile = True, exportFile = ''/tmp/out'', renew = False\<rparr>"

text \<open>
  A provider that knows the profile \<open>base\<close> and whatever profile is in the store, accepts
  the code 123456 and lets every role be assumed; a file system on which every file can
  be created and every write goes through.
\<close>

definition sampleEnv :: env where
  "sampleEnv =
     \<lparr>newSessionApi = (\<lambda>w options.
        Inr (case options of ProfileOptions r p \<Rightarrow> Some r | DefaultOptions \<Rightarrow> None)),
      getCallerIdentityApi = (\<lambda>w sess.
        case sessOptions sess of
          ProfileOptions r p \<Rightarrow>
            if p = ''base'' \<or> store w p \<noteq> None then Inr ''arn:aws:iam::123:user/alice''
            else Inl ''ExpiredToken''
        | DefaultOptions \<Rightarrow> Inr ''arn:aws:sts::123:assumed-role/host/i-0abc''),
      getSessionTokenApi = (\<lambda>w sess d serial code.
        if code = Some ''123456'' then Inr (sampleCredentials ''ASIAINTERMEDIATE'')
        else Inl ''AccessDenied''),
      assumeRoleApi = (\<lambda>w sess arn name d. Inr (sampleCredentials ''ASIATARGET'')),
      createFileApi = (\<lambda>w path. None),
      fprintfApi = (\<lambda>w path text. length text)\<rparr>"

text \<open>A world in which the intermediate profile is in the store, so that the sample
  provider knows it.\<close>

definition validWorld :: world where
  "validWorld =
     emptyWorld\<lparr>store := [''mfa'' \<mapsto> (sampleCredentials ''ASIAOLD'', Some ''eu-west-1'')]\<rparr>"

text \<open>A world in which the operator will type the code 123456.\<close>

definition typingWorld :: world where
  "typingWorld = emptyWorld\<lparr>stdin := [Inr (''123456'' @ [LF])]\<rparr>"

text \<open>A world in which the operator will only press the return key.\<close>

definition blankWorld :: world where
  "blankWorld = emptyWorld\<lparr>stdin := [Inr ('' '' @ [CR, LF])]\<rparr>"

text \<open>The sample collaborators, but no session can be made: the shared configuration
  file cannot be loaded.\<close>

definition noSessionEnv :: env where
  "noSessionEnv = sampleEnv\<lparr>newSessionApi := (\<lambda>w options. Inl ''SharedConfigLoadError'')\<rparr>"

text \<open>The sample collaborators, but no role may be assumed.\<close>

definition noRoleEnv :: env where
  "noRoleEnv = sampleEnv\<lparr>assumeRoleApi := (\<lambda>w sess arn name d. Inl ''AccessDenied'')\<rparr>"

text \<open>The sample collaborators, but the identity lookup fails for every session.\<close>

definition noIdentityEnv :: env where
  "noIdentityEnv = sampleEnv\<lparr>getCallerIdentityApi := (\<lambda>w sess. Inl ''ExpiredToken'')\<rparr>"

text \<open>The sample collaborators, but the disk is full: files can be created, and no byte
  written to them gets there.\<close>

definition fullDiskEnv :: env where
  "fullDiskEnv = sampleEnv\<lparr>fprintfApi := (\<lambda>w path text. 0)\<rparr>"

text \<open>The sample configuration without MFA device, once signing in with the base
  profile and once with the identity of the host.\<close>

definition plainConfig :: config where
  "plainConfig = sampleConfig\<lparr>tokenSerialNumber := []\<rparr>"

definition instanceConfig :: config where
  "instanceConfig = sampleConfig\<lparr>tokenSerialNumber := [], useInstanceProfile := True\<rparr>"

section \<open>Properties\<close>


subsection \<open>Sequencing and the log\<close>

lemma andThen_Ret [simp]: "andThen (Ret a w) f = f a w"
  by (simp add: andThen_def)

lemma andThen_Halt [simp]: "andThen (Halt out w) f = Halt out w"
  by (simp add: andThen_def)

lemma andThen_eq_Ret:
  "andThen r f = Ret b w' \<longleftrightarrow> (\<exists>a w1. r = Ret a w1 \<and> f a w1 = Ret b w')"
  by (cases r) simp_all

lemma emit_fields [simp]:
  "store (emit e w) = store w" "files (emit e w) = files w" "stdin (emit e w) = stdin w"
  "trace (emit e w) = trace w @ [e]"
  by (simp_all add: emit_def)

lemma worldOf_simps [simp]: "worldOf (Ret a w) = w" "worldOf (Halt out w) = w"
  by (simp_all add: worldOf_def)

lemma writeProfile_fields [simp]:
  "store (writeProfile cred name reg w) = (store w)(name \<mapsto> (cred, reg))"
  "files (writeProfile cred name reg w) = files w"
  "stdin (writeProfile cred name reg w) = stdin w"
  "trace (writeProfile cred name reg w) = trace w @ [WriteProfileEv cred name reg]"
  by (simp_all add: writeProfile_def)

subsection \<open>The session name\<close>

lemma split_nonempty: "split s sep \<noteq> []"
  by (induction s) (simp_all add: Let_def)

lemma split_no_sep: "sep \<notin> set s \<Longrightarrow> split s sep = [s]"
  by (induction s) (auto simp: Let_def)

lemma split_sep_tl: "sep \<in> set s \<Longrightarrow> tl (split s sep) \<noteq> []"
  by (induction s) (auto simp: Let_def split_nonempty)

lemma last_split_Cons:
  "last (split (x # xs) sep) =
     (if sep \<in> set xs \<or> x = sep then last (split xs sep) else x # xs)"
proof (cases "x = sep")
  case True
  then show ?thesis by (simp add: split_nonempty)
next
  case False
  show ?thesis
  proof (cases "sep \<in> set xs")
    case True
    then have "tl (split xs sep) \<noteq> []" by (rule split_sep_tl)
    moreover have "last (tl (split xs sep)) = last (split xs sep)"
      using calculation by (cases "split xs sep") auto
    ultimately show ?thesis using False True by (simp add: Let_def)
  next
    case no: False
    with False show ?thesis by (simp add: split_no_sep)
  qed
qed

lemma last_split_no_sep: "sep \<notin> set (last (split s sep))"
proof (induction s)
  case Nil
  show ?case by simp
next
  case (Cons x xs)
  then show ?case unfolding last_split_Cons by auto
qed

lemma last_split_suffix:
  "sep \<in> set s \<Longrightarrow> \<exists>pre. s = pre @ sep # last (split s sep)"
proof (induction s)
  case Nil
  then show ?case by simp
next
  case (Cons x xs)
  show ?case
  proof (cases "sep \<in> set xs")
    case True
    with Cons obtain pre where pre: "xs = pre @ sep # last (split xs sep)" by blast
    then have "x # xs = (x # pre) @ sep # last (split xs sep)" by simp
    then have "\<exists>q. x # xs = q @ sep # last (split xs sep)" by (rule exI)
    with True show ?thesis unfolding last_split_Cons by simp
  next
    case False
    with Cons.prems have "x = sep" by simp
    with False show ?thesis unfolding last_split_Cons by (simp add: split_no_sep)
  qed
qed

lemma roleSessionNameOf_last: "roleSessionNameOf s = last (split s (CHR ''/''))"
  by (simp add: roleSessionNameOf_def Let_def last_conv_nth split_nonempty)

lemma ensureTargetProfile_trace:
  "getCallerIdentityApi env w sess = Inr arn \<Longrightarrow>
   \<exists>r rest. trace (worldOf (ensureTargetProfile env c sess w)) =
     trace w @ GetCallerIdentityEv sess (Inr arn)
       # AssumeRoleEv sess (roleArn c) (roleSessionNameOf arn) (targetDuration c) r # rest"
  by (simp add: ensureTargetProfile_def getCallerId_def assumeRole_def die_def Let_def
      split: sum.splits)

text \<open>
  C8. The role session name handed to AssumeRole is the tail segment of the caller's
  identity reference: it contains no slash; when the reference contains a slash, the
  reference is some prefix, a slash and the name, and otherwise the name is the whole
  reference; \<open>arn:aws:iam::123:user/alice\<close> gives \<open>alice\<close>; and whenever the lookup answers
  with a reference, the call logged right after it is AssumeRole with that name.
\<close>

theorem role_session_name_is_tail_segment:
  "CHR ''/'' \<notin> set (roleSessionNameOf arn)
   \<and> (if CHR ''/'' \<in> set arn then \<exists>pre. arn = pre @ CHR ''/'' # roleSessionNameOf arn
      else roleSessionNameOf arn = arn)
   \<and> roleSessionNameOf ''arn:aws:iam::123:user/alice'' = ''alice''
   \<and> (getCallerIdentityApi env w sess = Inr arn \<longrightarrow>
        (\<exists>r rest. trace (worldOf (ensureTargetProfile env c sess w)) =
           trace w @ GetCallerIdentityEv sess (Inr arn)
             # AssumeRoleEv sess (roleArn c) (roleSessionNameOf arn) (targetDuration c) r # rest))"
proof (intro conjI impI)
  show "CHR ''/'' \<notin> set (roleSessionNameOf arn)"
    by (simp add: roleSessionNameOf_last last_split_no_sep)
  show "if CHR ''/'' \<in> set arn then \<exists>pre. arn = pre @ CHR ''/'' # roleSessionNameOf arn
      else roleSessionNameOf arn = arn"
    by (simp add: roleSessionNameOf_last last_split_suffix split_no_sep)
  show "roleSessionNameOf ''arn:aws:iam::123:user/alice'' = ''alice''"
    by (simp add: roleSessionNameOf_def Let_def)
next
  assume "getCallerIdentityApi env w sess = Inr arn"
  then show "\<exists>r rest. trace (worldOf (ensureTargetProfile env c sess w)) =
           trace w @ GetCallerIdentityEv sess (Inr arn)
             # AssumeRoleEv sess (roleArn c) (roleSessionNameOf arn) (targetDuration c) r # rest"
    by (rule ensureTargetProfile_trace)
qed

theorem role_session_name_is_tail_segment_witness:
  "getCallerIdentityApi sampleEnv emptyWorld
      \<lparr>sessOptions = ProfileOptions ''eu-west-1'' ''base'', sessRegion = Some ''eu-west-1''\<rparr>
     = Inr ''arn:aws:iam::123:user/alice''
   \<and> trace (worldOf (ensureTargetProfile sampleEnv sampleConfig
        \<lparr>sessOptions = ProfileOptions ''eu-west-1'' ''base'', sessRegion = Some ''eu-west-1''\<rparr>
        emptyWorld)) ! 1
     = AssumeRoleEv
        \<lparr>sessOptions = ProfileOptions ''eu-west-1'' ''base'', sessRegion = Some ''eu-west-1''\<rparr>
        ''arn:aws:iam::456:role/admin'' ''alice'' 3600 (Inr (sampleCredentials ''ASIATARGET''))"
proof -
  let ?s = "\<lparr>sessOptions = ProfileOptions ''eu-west-1'' ''base'', sessRegion = Some ''eu-west-1''\<rparr>"
  have h: "getCallerIdentityApi sampleEnv emptyWorld ?s = Inr ''arn:aws:iam::123:user/alice''"
    by (simp add: sampleEnv_def)
  from role_session_name_is_tail_segment
    [of "''arn:aws:iam::123:user/alice''" sampleEnv emptyWorld ?s sampleConfig] h
  obtain r rest where t: "trace (worldOf (ensureTargetProfile sampleEnv sampleConfig ?s emptyWorld)) =
      trace emptyWorld @ GetCallerIdentityEv ?s (Inr ''arn:aws:iam::123:user/alice'')
        # AssumeRoleEv ?s (roleArn sampleConfig) ''alice'' (targetDuration sampleConfig) r # rest"
    by auto
  then have "trace (worldOf (ensureTargetProfile sampleEnv sampleConfig ?s emptyWorld)) ! 1
     = AssumeRoleEv ?s (roleArn sampleConfig) ''alice'' (targetDuration sampleConfig) r"
    by (simp add: emptyWorld_def)
  moreover have "trace (worldOf (ensureTargetProfile sampleEnv sampleConfig ?s emptyWorld)) ! 1
     = AssumeRoleEv ?s ''arn:aws:iam::456:role/admin'' ''alice'' 3600 (Inr (sampleCredentials ''ASIATARGET''))"
    by (simp add: ensureTargetProfile_def getCallerId_def assumeRole_def Let_def sampleEnv_def
        sampleConfig_def emptyWorld_def roleSessionNameOf_def)
  ultimately show ?thesis using h by simp
qed

subsection \<open>The renewal decision\<close>

lemmas run_defs = chain_def intermediateStep_def ensureSessionTokenProfile_def
  validateSessionToken_def getSessionToken_def getTokenCode_def readString_def mustSession_def
  targetStep_def targetSession_def baseProfile_def ensureTargetProfile_def getCallerId_def
  assumeRole_def writeProfileToFile_def die_def writeProfile_def emit_def Let_def
  loopDecision_def sleepDuration_def roleSessionNameOf_def trim_def stillValidMessage_def
  mfaPrompt_def exportDescriptor_def goDiv_def timeSecond_def signed_divide_int_def

lemmas sample_defs = sampleEnv_def sampleConfig_def emptyWorld_def sampleCredentials_def
  LF_def CR_def validWorld_def typingWorld_def blankWorld_def noSessionEnv_def noRoleEnv_def
  noIdentityEnv_def fullDiskEnv_def plainConfig_def instanceConfig_def

lemma sdiv_two_nonneg: "0 \<le> (k::int) \<Longrightarrow> k sdiv 2 = k div 2"
  by (simp add: signed_divide_int_def sgn_if)

lemma sint_int64_of_int:
  "- (2 ^ 63) \<le> k \<Longrightarrow> k < 2 ^ 63 \<Longrightarrow> sint (word_of_int k :: int64) = k"
  by (simp add: sint_sbintrunc' signed_take_bit_int_eq_self)

lemma goDiv_two_sint:
  assumes "0 \<le> sint d"
  shows "sint (goDiv d 2) = sint d div 2"
proof -
  have b: "sint d < 2 ^ 63" using sint_lt [of d] by simp
  have s2: "sint (2 :: int64) = 2" by simp
  have "sint (word_of_int (sint d div 2) :: int64) = sint d div 2"
  proof (rule sint_int64_of_int)
    show "- (2 ^ 63) \<le> sint d div 2" using assms by simp
    show "sint d div 2 < 2 ^ 63" using assms b by simp
  qed
  then show ?thesis using assms by (simp add: goDiv_def s2 sdiv_two_nonneg)
qed

lemma sleepDuration_exact:
  assumes "0 \<le> sint (targetDuration c)"
    and "sint (targetDuration c) div 2 * 1000000000 < 2 ^ 63"
  shows "sint (sleepDuration c) = sint (targetDuration c) div 2 * 1000000000"
proof -
  let ?h = "sint (targetDuration c) div 2"
  have h: "sint (goDiv (targetDuration c) 2) = ?h"
    using assms(1) by (rule goDiv_two_sint)
  have ts: "sint timeSecond = 1000000000" by (simp add: timeSecond_def)
  have "sint (sleepDuration c) = signed_take_bit 63 (1000000000 * ?h)"
    unfolding sleepDuration_def by (simp add: sint_word_mult h ts)
  also have "\<dots> = 1000000000 * ?h"
  proof (rule signed_take_bit_int_eq_self)
    show "- (2 ^ 63) \<le> 1000000000 * ?h" using assms(1) by simp
    show "1000000000 * ?h < 2 ^ 63" using assms(2) by (simp add: mult.commute)
  qed
  finally show ?thesis by simp
qed

lemma mainLoop_break:
  "\<not> renew c \<Longrightarrow> chain env c w = Ret u w1 \<Longrightarrow> mainLoop (Suc n) env c w = (Some (Exit 0), w1)"
  by (simp add: loopDecision_def)

lemma mainLoop_repeat:
  "renew c \<Longrightarrow> chain env c w = Ret u w1 \<Longrightarrow>
   mainLoop (Suc n) env c w = mainLoop n env c (emit (SleepEv (sleepDuration c)) w1)"
  by (simp add: loopDecision_def)

lemma mainLoop_halt:
  "chain env c w = Halt out w1 \<Longrightarrow> mainLoop (Suc n) env c w = (Some out, w1)"
  by simp

text \<open>
  C5. What the loop does after a pass depends on the renew flag and the target
  duration only. With renew off the decision is to stop, and the loop ends with exit
  code 0 after the one pass. With renew on the decision is to sleep
  \<^verbatim>\<open>time.Second * time.Duration(targetDuration / 2)\<close> and the loop goes on with the next
  pass after that sleep; as long as that many nanoseconds fit a \<^verbatim>\<open>time.Duration\<close>, the
  sleep is exactly the target duration divided by two (integer division) seconds. A
  target duration of 3600 gives a sleep of 1800 seconds.
\<close>

theorem renewal_scheduler_decision:
  "(renew c' = renew c \<and> targetDuration c' = targetDuration c \<longrightarrow>
      loopDecision c' = loopDecision c)
   \<and> (\<not> renew c \<longrightarrow> loopDecision c = None
        \<and> (\<forall>w1. chain env c w = Ret () w1 \<longrightarrow>
              mainLoop (Suc n) env c w = (Some (Exit 0), w1)))
   \<and> (renew c \<longrightarrow> loopDecision c = Some (sleepDuration c)
        \<and> (\<forall>w1. chain env c w = Ret () w1 \<longrightarrow>
              mainLoop (Suc n) env c w = mainLoop n env c (emit (SleepEv (sleepDuration c)) w1)))
   \<and> (0 \<le> sint (targetDuration c) \<and> sint (targetDuration c) div 2 * 1000000000 < 2 ^ 63 \<longrightarrow>
        sint (sleepDuration c) = sint (targetDuration c) div 2 * 1000000000)
   \<and> loopDecision (c\<lparr>renew := False\<rparr>) = None
   \<and> loopDecision (c\<lparr>renew := True, targetDuration := 3600\<rparr>) = Some (1800 * timeSecond)"
proof (intro conjI impI allI)
  assume "renew c' = renew c \<and> targetDuration c' = targetDuration c"
  then show "loopDecision c' = loopDecision c"
    by (simp add: loopDecision_def sleepDuration_def)
next
  assume "\<not> renew c"
  then show "loopDecision c = None" by (simp add: loopDecision_def)
next
  fix w1
  assume "\<not> renew c" and "chain env c w = Ret () w1"
  then show "mainLoop (Suc n) env c w = (Some (Exit 0), w1)" by (rule mainLoop_break)
next
  assume "renew c"
  then show "loopDecision c = Some (sleepDuration c)" by (simp add: loopDecision_def)
next
  fix w1
  assume "renew c" and "chain env c w = Ret () w1"
  then show "mainLoop (Suc n) env c w = mainLoop n env c (emit (SleepEv (sleepDuration c)) w1)"
    by (rule mainLoop_repeat)
next
  assume "0 \<le> sint (targetDuration c) \<and> sint (targetDuration c) div 2 * 1000000000 < 2 ^ 63"
  then show "sint (sleepDuration c) = sint (targetDuration c) div 2 * 1000000000"
    by (simp add: sleepDuration_exact)
next
  show "loopDecision (c\<lparr>renew := False\<rparr>) = None" by (simp add: loopDecision_def)
  show "loopDecision (c\<lparr>renew := True, targetDuration := 3600\<rparr>) = Some (1800 * timeSecond)"
    by (simp add: loopDecision_def sleepDuration_def goDiv_def timeSecond_def
        signed_divide_int_def)
qed

theorem renewal_scheduler_decision_witness:
  "fst (mainLoop (Suc 0) sampleEnv (sampleConfig\<lparr>tokenSerialNumber := []\<rparr>) emptyWorld)
     = Some (Exit 0)
   \<and> mainLoop (Suc (Suc 0)) sampleEnv (sampleConfig\<lparr>tokenSerialNumber := [], renew := True\<rparr>)
        emptyWorld
     = mainLoop (Suc 0) sampleEnv (sampleConfig\<lparr>tokenSerialNumber := [], renew := True\<rparr>)
        (emit (SleepEv 1800000000000)
          (worldOf (chain sampleEnv (sampleConfig\<lparr>tokenSerialNumber := [], renew := True\<rparr>)
             emptyWorld)))
   \<and> sint (sleepDuration sampleConfig) = 1800 * 1000000000"
proof -
  let ?off = "sampleConfig\<lparr>tokenSerialNumber := []\<rparr>"
  let ?on = "sampleConfig\<lparr>tokenSerialNumber := [], renew := True\<rparr>"
  have off: "\<not> renew ?off" by (simp add: sampleConfig_def)
  have on: "renew ?on" by simp
  have ok_off: "chain sampleEnv ?off emptyWorld = Ret () (worldOf (chain sampleEnv ?off emptyWorld))"
    by (simp add: run_defs sample_defs)
  have ok_on: "chain sampleEnv ?on emptyWorld = Ret () (worldOf (chain sampleEnv ?on emptyWorld))"
    by (simp add: run_defs sample_defs)
  have dur: "0 \<le> sint (targetDuration sampleConfig)
      \<and> sint (targetDuration sampleConfig) div 2 * 1000000000 < 2 ^ 63"
    by (simp add: sampleConfig_def)
  have sl: "sleepDuration ?on = 1800000000000"
    by (simp add: run_defs sample_defs)
  have a: "mainLoop (Suc 0) sampleEnv ?off emptyWorld
      = (Some (Exit 0), worldOf (chain sampleEnv ?off emptyWorld))"
    using renewal_scheduler_decision [of ?off ?off sampleEnv emptyWorld 0] off ok_off by blast
  have b: "mainLoop (Suc (Suc 0)) sampleEnv ?on emptyWorld
      = mainLoop (Suc 0) sampleEnv ?on
          (emit (SleepEv (sleepDuration ?on)) (worldOf (chain sampleEnv ?on emptyWorld)))"
    using renewal_scheduler_decision [of ?on ?on sampleEnv emptyWorld "Suc 0"] on ok_on by blast
  have c: "sint (sleepDuration sampleConfig) = sint (targetDuration sampleConfig) div 2 * 1000000000"
    using renewal_scheduler_decision [of sampleConfig sampleConfig sampleEnv emptyWorld 0] dur
    by blast
  have d: "sint (targetDuration sampleConfig) div 2 = 1800" by (simp add: sampleConfig_def)
  show ?thesis using a b c d sl by simp
qed

subsection \<open>Without an MFA device\<close>

lemma targetStep_no_intermediate:
  assumes "tokenSerialNumber c = []"
  shows "\<exists>evs. trace (worldOf (targetStep env c w)) = trace w @ evs
           \<and> list_all (\<lambda>e. \<not> intermediateEvent
                 (if useInstanceProfile c then DefaultOptions
                  else ProfileOptions (region c) (profile c)) e) evs
           \<and> stdin (worldOf (targetStep env c w)) = stdin w"
  using assms
  by (simp add: targetStep_def targetSession_def baseProfile_def mustSession_def
      ensureTargetProfile_def getCallerId_def assumeRole_def writeProfileToFile_def die_def
      Let_def split: sum.splits option.splits)

lemma chain_no_mfa: "tokenSerialNumber c = [] \<Longrightarrow> chain env c w = targetStep env c w"
  by (simp add: chain_def intermediateStep_def)

lemma mainLoop_no_intermediate:
  assumes "tokenSerialNumber c = []"
  shows "\<exists>evs. trace (snd (mainLoop n env c w)) = trace w @ evs
           \<and> list_all (\<lambda>e. \<not> intermediateEvent
                 (if useInstanceProfile c then DefaultOptions
                  else ProfileOptions (region c) (profile c)) e) evs
           \<and> stdin (snd (mainLoop n env c w)) = stdin w"
proof (induction n arbitrary: w)
  case 0
  show ?case by simp
next
  case (Suc n)
  let ?P = "\<lambda>e. \<not> intermediateEvent
     (if useInstanceProfile c then DefaultOptions else ProfileOptions (region c) (profile c)) e"
  obtain evs where evs: "trace (worldOf (targetStep env c w)) = trace w @ evs"
      "list_all ?P evs" "stdin (worldOf (targetStep env c w)) = stdin w"
    using targetStep_no_intermediate [OF assms, of env w] by blast
  show ?case
  proof (cases "targetStep env c w")
    case (Halt out w1)
    with evs show ?thesis by (simp add: chain_no_mfa [OF assms])
  next
    case (Ret u w1)
    show ?thesis
    proof (cases "renew c")
      case False
      with Ret evs show ?thesis by (simp add: chain_no_mfa [OF assms] loopDecision_def)
    next
      case True
      let ?w2 = "emit (SleepEv (sleepDuration c)) w1"
      obtain evs' where evs': "trace (snd (mainLoop n env c ?w2)) = trace ?w2 @ evs'"
          "list_all ?P evs'" "stdin (snd (mainLoop n env c ?w2)) = stdin ?w2"
        using Suc.IH [of ?w2] by blast
      have "trace (snd (mainLoop n env c ?w2)) = trace w @ (evs @ SleepEv (sleepDuration c) # evs')"
        using evs' evs Ret by simp
      moreover have "list_all ?P (evs @ SleepEv (sleepDuration c) # evs')"
        using evs evs' by simp
      moreover have "stdin (snd (mainLoop n env c ?w2)) = stdin w"
        using evs' evs Ret by simp
      ultimately have "\<exists>es. trace (snd (mainLoop n env c ?w2)) = trace w @ es
          \<and> list_all ?P es \<and> stdin (snd (mainLoop n env c ?w2)) = stdin w"
        by blast
      with Ret True show ?thesis by (simp add: chain_no_mfa [OF assms] loopDecision_def)
    qed
  qed
qed

lemma targetStep_begins_with_session:
  "take 1 (newEvents w (worldOf (targetStep env c w))) =
     [NewSessionEv
        (if useInstanceProfile c then DefaultOptions
         else ProfileOptions (region c) (baseProfile c))
        (newSessionApi env w
          (if useInstanceProfile c then DefaultOptions
           else ProfileOptions (region c) (baseProfile c)))]"
  by (simp add: targetStep_def targetSession_def mustSession_def
      ensureTargetProfile_def getCallerId_def assumeRole_def writeProfileToFile_def die_def
      newEvents_def Let_def split: sum.splits option.splits)

lemma targetStep_looks_up_session:
  assumes "newSessionApi env w
      (if useInstanceProfile c then DefaultOptions
       else ProfileOptions (region c) (baseProfile c)) = Inr reg"
  shows "take 1 (drop 1 (newEvents w (worldOf (targetStep env c w)))) =
     [GetCallerIdentityEv
        \<lparr>sessOptions = (if useInstanceProfile c then DefaultOptions
                         else ProfileOptions (region c) (baseProfile c)),
         sessRegion = reg\<rparr>
        (getCallerIdentityApi env
           (emit (NewSessionEv
              (if useInstanceProfile c then DefaultOptions
               else ProfileOptions (region c) (baseProfile c)) (Inr reg)) w)
           \<lparr>sessOptions = (if useInstanceProfile c then DefaultOptions
                            else ProfileOptions (region c) (baseProfile c)),
            sessRegion = reg\<rparr>)]"
proof (cases "useInstanceProfile c")
  case True
  with assms have "newSessionApi env w DefaultOptions = Inr reg" by simp
  with True show ?thesis
    by (simp add: targetStep_def targetSession_def mustSession_def
        ensureTargetProfile_def getCallerId_def assumeRole_def writeProfileToFile_def die_def
        newEvents_def Let_def split: sum.splits option.splits)
next
  case False
  with assms have "newSessionApi env w (ProfileOptions (region c) (baseProfile c)) = Inr reg"
    by simp
  with False show ?thesis
    by (simp add: targetStep_def targetSession_def mustSession_def
        ensureTargetProfile_def getCallerId_def assumeRole_def writeProfileToFile_def die_def
        newEvents_def Let_def split: sum.splits option.splits)
qed

text \<open>
  C2, as amended. With an empty MFA device serial the intermediate step of every pass
  does nothing at all, so that every pass is the assume-role step alone, started in the
  world the pass began in. That step begins by making its session, for the configured
  base profile (\<open>profile\<close>) when the identity of the host is not asked for, and without
  any profile when it is; once the session is made, the next call is the identity
  lookup with it. Whatever the number of passes and however the run ends, nothing is
  read from the operator, and the log of the run holds no session-token call, no line
  on standard output (no prompt, no status message) and no session or identity lookup
  for any other options than those.
\<close>

theorem no_mfa_device_skips_intermediate:
  assumes "tokenSerialNumber c = []"
  shows "intermediateStep env c w = Ret () w
    \<and> chain env c w = targetStep env c w
    \<and> targetSession env c w =
        mustSession env (if useInstanceProfile c then DefaultOptions
                         else ProfileOptions (region c) (profile c)) w
    \<and> take 1 (newEvents w (worldOf (chain env c w))) =
        [NewSessionEv
           (if useInstanceProfile c then DefaultOptions
            else ProfileOptions (region c) (profile c))
           (newSessionApi env w
             (if useInstanceProfile c then DefaultOptions
              else ProfileOptions (region c) (profile c)))]
    \<and> (\<forall>reg. newSessionApi env w
           (if useInstanceProfile c then DefaultOptions
            else ProfileOptions (region c) (profile c)) = Inr reg \<longrightarrow>
         take 1 (drop 1 (newEvents w (worldOf (chain env c w)))) =
           [GetCallerIdentityEv
              \<lparr>sessOptions = (if useInstanceProfile c then DefaultOptions
                               else ProfileOptions (region c) (profile c)),
               sessRegion = reg\<rparr>
              (getCallerIdentityApi env
                 (emit (NewSessionEv
                    (if useInstanceProfile c then DefaultOptions
                     else ProfileOptions (region c) (profile c)) (Inr reg)) w)
                 \<lparr>sessOptions = (if useInstanceProfile c then DefaultOptions
                                  else ProfileOptions (region c) (profile c)),
                  sessRegion = reg\<rparr>)])
    \<and> trace (snd (mainLoop n env c w)) = trace w @ newEvents w (snd (mainLoop n env c w))
    \<and> list_all (\<lambda>e. \<not> intermediateEvent
           (if useInstanceProfile c then DefaultOptions
            else ProfileOptions (region c) (profile c)) e)
         (newEvents w (snd (mainLoop n env c w)))
    \<and> stdin (snd (mainLoop n env c w)) = stdin w"
proof -
  obtain evs where evs: "trace (snd (mainLoop n env c w)) = trace w @ evs"
      "list_all (\<lambda>e. \<not> intermediateEvent
           (if useInstanceProfile c then DefaultOptions
            else ProfileOptions (region c) (profile c)) e) evs"
      "stdin (snd (mainLoop n env c w)) = stdin w"
    using mainLoop_no_intermediate [OF assms, of n env w] by blast
  have n: "newEvents w (snd (mainLoop n env c w)) = evs"
    using evs(1) by (simp add: newEvents_def)
  have b: "baseProfile c = profile c" using assms by (simp add: baseProfile_def)
  have ch: "chain env c w = targetStep env c w"
    using assms by (rule chain_no_mfa)
  have first: "take 1 (newEvents w (worldOf (chain env c w))) =
        [NewSessionEv
           (if useInstanceProfile c then DefaultOptions
            else ProfileOptions (region c) (profile c))
           (newSessionApi env w
             (if useInstanceProfile c then DefaultOptions
              else ProfileOptions (region c) (profile c)))]"
    unfolding ch using targetStep_begins_with_session [of w env c] unfolding b .
  have second: "\<forall>reg. newSessionApi env w
           (if useInstanceProfile c then DefaultOptions
            else ProfileOptions (region c) (profile c)) = Inr reg \<longrightarrow>
         take 1 (drop 1 (newEvents w (worldOf (chain env c w)))) =
           [GetCallerIdentityEv
              \<lparr>sessOptions = (if useInstanceProfile c then DefaultOptions
                               else ProfileOptions (region c) (profile c)),
               sessRegion = reg\<rparr>
              (getCallerIdentityApi env
                 (emit (NewSessionEv
                    (if useInstanceProfile c then DefaultOptions
                     else ProfileOptions (region c) (profile c)) (Inr reg)) w)
                 \<lparr>sessOptions = (if useInstanceProfile c then DefaultOptions
                                  else ProfileOptions (region c) (profile c)),
                  sessRegion = reg\<rparr>)]"
    unfolding ch using targetStep_looks_up_session [of env w c] unfolding b by blast
  have rest: "intermediateStep env c w = Ret () w
    \<and> targetSession env c w =
        mustSession env (if useInstanceProfile c then DefaultOptions
                         else ProfileOptions (region c) (profile c)) w"
    using assms by (simp add: intermediateStep_def targetSession_def baseProfile_def)
  from rest ch first second evs n show ?thesis by blast
qed

theorem no_mfa_device_skips_intermediate_witness:
  "tokenSerialNumber plainConfig = [] \<and> tokenSerialNumber instanceConfig = []
   \<and> take 2 (newEvents emptyWorld (worldOf (chain sampleEnv plainConfig emptyWorld))) =
       [NewSessionEv (ProfileOptions ''eu-west-1'' ''base'') (Inr (Some ''eu-west-1'')),
        GetCallerIdentityEv
          \<lparr>sessOptions = ProfileOptions ''eu-west-1'' ''base'', sessRegion = Some ''eu-west-1''\<rparr>
          (Inr ''arn:aws:iam::123:user/alice'')]
   \<and> take 2 (newEvents emptyWorld (worldOf (chain sampleEnv instanceConfig emptyWorld))) =
       [NewSessionEv DefaultOptions (Inr None),
        GetCallerIdentityEv \<lparr>sessOptions = DefaultOptions, sessRegion = None\<rparr>
          (Inr ''arn:aws:sts::123:assumed-role/host/i-0abc'')]
   \<and> newEvents emptyWorld
        (snd (mainLoop (Suc (Suc 0)) sampleEnv (plainConfig\<lparr>renew := True\<rparr>) emptyWorld)) \<noteq> []
   \<and> list_all (\<lambda>e. \<not> intermediateEvent (ProfileOptions ''eu-west-1'' ''base'') e)
        (newEvents emptyWorld
          (snd (mainLoop (Suc (Suc 0)) sampleEnv (plainConfig\<lparr>renew := True\<rparr>) emptyWorld)))
   \<and> list_all (\<lambda>e. \<not> intermediateEvent DefaultOptions e)
        (newEvents emptyWorld
          (snd (mainLoop (Suc (Suc 0)) sampleEnv (instanceConfig\<lparr>renew := True\<rparr>)
             emptyWorld)))"
proof -
  let ?p = "plainConfig\<lparr>renew := True\<rparr>"
  let ?i = "instanceConfig\<lparr>renew := True\<rparr>"
  let ?bo = "ProfileOptions ''eu-west-1'' ''base''"
  have h: "tokenSerialNumber plainConfig = []" "tokenSerialNumber instanceConfig = []"
    "tokenSerialNumber ?p = []" "tokenSerialNumber ?i = []"
    by (simp_all add: plainConfig_def instanceConfig_def)
  have op: "(if useInstanceProfile plainConfig then DefaultOptions
            else ProfileOptions (region plainConfig) (profile plainConfig)) = ?bo"
    "(if useInstanceProfile ?p then DefaultOptions
            else ProfileOptions (region ?p) (profile ?p)) = ?bo"
    by (simp_all add: plainConfig_def sampleConfig_def)
  have oi: "(if useInstanceProfile instanceConfig then DefaultOptions
            else ProfileOptions (region instanceConfig) (profile instanceConfig))
          = DefaultOptions"
    "(if useInstanceProfile ?i then DefaultOptions
            else ProfileOptions (region ?i) (profile ?i)) = DefaultOptions"
    by (simp_all add: instanceConfig_def)
  have sp: "newSessionApi sampleEnv emptyWorld ?bo = Inr (Some ''eu-west-1'')"
    and si: "newSessionApi sampleEnv emptyWorld DefaultOptions = Inr None"
    by (simp_all add: sampleEnv_def)
  note tp = no_mfa_device_skips_intermediate [OF h(1), of sampleEnv emptyWorld 0, unfolded op]
  note ti = no_mfa_device_skips_intermediate [OF h(2), of sampleEnv emptyWorld 0, unfolded oi]
  note rp = no_mfa_device_skips_intermediate
    [OF h(3), of sampleEnv emptyWorld "Suc (Suc 0)", unfolded op]
  note ri = no_mfa_device_skips_intermediate
    [OF h(4), of sampleEnv emptyWorld "Suc (Suc 0)", unfolded oi]
  let ?ep = "newEvents emptyWorld (worldOf (chain sampleEnv plainConfig emptyWorld))"
  let ?ei = "newEvents emptyWorld (worldOf (chain sampleEnv instanceConfig emptyWorld))"
  from tp have p1: "take 1 ?ep = [NewSessionEv ?bo (newSessionApi sampleEnv emptyWorld ?bo)]"
    by blast
  from tp sp have p2: "take 1 (drop 1 ?ep) =
      [GetCallerIdentityEv \<lparr>sessOptions = ?bo, sessRegion = Some ''eu-west-1''\<rparr>
         (getCallerIdentityApi sampleEnv
            (emit (NewSessionEv ?bo (Inr (Some ''eu-west-1''))) emptyWorld)
            \<lparr>sessOptions = ?bo, sessRegion = Some ''eu-west-1''\<rparr>)]"
    by blast
  from ti have i1: "take 1 ?ei =
      [NewSessionEv DefaultOptions (newSessionApi sampleEnv emptyWorld DefaultOptions)]"
    by blast
  from ti si have i2: "take 1 (drop 1 ?ei) =
      [GetCallerIdentityEv \<lparr>sessOptions = DefaultOptions, sessRegion = None\<rparr>
         (getCallerIdentityApi sampleEnv
            (emit (NewSessionEv DefaultOptions (Inr None)) emptyWorld)
            \<lparr>sessOptions = DefaultOptions, sessRegion = None\<rparr>)]"
    by blast
  have t2: "take 2 xs = take 1 xs @ take 1 (drop 1 xs)" for xs :: "event list"
    by (cases xs) (simp_all add: take_Suc_conv_app_nth numeral_2_eq_2 take_Suc)
  have P: "take 2 ?ep =
       [NewSessionEv ?bo (Inr (Some ''eu-west-1'')),
        GetCallerIdentityEv \<lparr>sessOptions = ?bo, sessRegion = Some ''eu-west-1''\<rparr>
          (Inr ''arn:aws:iam::123:user/alice'')]"
    unfolding t2 p1 p2 by (simp add: sampleEnv_def)
  have I: "take 2 ?ei =
       [NewSessionEv DefaultOptions (Inr None),
        GetCallerIdentityEv \<lparr>sessOptions = DefaultOptions, sessRegion = None\<rparr>
          (Inr ''arn:aws:sts::123:assumed-role/host/i-0abc'')]"
    unfolding t2 i1 i2 by (simp add: sampleEnv_def)
  have ne: "newEvents emptyWorld (snd (mainLoop (Suc (Suc 0)) sampleEnv ?p emptyWorld)) \<noteq> []"
    by (simp add: run_defs sample_defs newEvents_def)
  from rp have RP: "list_all (\<lambda>e. \<not> intermediateEvent ?bo e)
        (newEvents emptyWorld (snd (mainLoop (Suc (Suc 0)) sampleEnv ?p emptyWorld)))"
    by blast
  from ri have RI: "list_all (\<lambda>e. \<not> intermediateEvent DefaultOptions e)
        (newEvents emptyWorld (snd (mainLoop (Suc (Suc 0)) sampleEnv ?i emptyWorld)))"
    by blast
  from h(1,2) P I ne RP RI show ?thesis by blast
qed

text \<open>
  The claim as it stands fails where the identity of the host is asked for: the serial
  is empty, and the pass signs in with a session made without any profile, not with
  the configured base profile, which appears nowhere in the log of the run.
\<close>

theorem base_profile_not_used_counterexample:
  "tokenSerialNumber instanceConfig = [] \<and> profile instanceConfig = ''base''
   \<and> fst (mainLoop (Suc 0) sampleEnv instanceConfig emptyWorld) = Some (Exit 0)
   \<and> trace (snd (mainLoop (Suc 0) sampleEnv instanceConfig emptyWorld)) =
       [NewSessionEv DefaultOptions (Inr None),
        GetCallerIdentityEv \<lparr>sessOptions = DefaultOptions, sessRegion = None\<rparr>
          (Inr ''arn:aws:sts::123:assumed-role/host/i-0abc''),
        AssumeRoleEv \<lparr>sessOptions = DefaultOptions, sessRegion = None\<rparr>
          ''arn:aws:iam::456:role/admin'' ''i-0abc'' 3600
          (Inr (sampleCredentials ''ASIATARGET'')),
        WriteProfileEv (sampleCredentials ''ASIATARGET'') ''target'' None,
        CreateFileEv ''/tmp/out'' None,
        WriteFileEv ''/tmp/out'' (exportDescriptor ''target'')
          (length (exportDescriptor ''target''))]"
  by (simp add: run_defs sample_defs)

subsection \<open>The export file\<close>

lemma split_append_sep:
  "sep \<notin> set a \<Longrightarrow> split (a @ sep # b) sep = a # split b sep"
  by (induction a) (auto simp: Let_def)

lemma exportDescriptor_lines:
  assumes "LF \<notin> set name"
  shows "split (exportDescriptor name) LF =
    [''export AWS_PROFILE='' @ name, ''unset AWS_ACCESS_KEY_ID'',
     ''unset AWS_SECRET_ACCESS_KEY'', []]"
proof -
  have a: "LF \<notin> set (''export AWS_PROFILE='' @ name)"
    using assms by (simp add: LF_def)
  have b: "LF \<notin> set ''unset AWS_ACCESS_KEY_ID''" by (simp add: LF_def)
  have c: "LF \<notin> set ''unset AWS_SECRET_ACCESS_KEY''" by (simp add: LF_def)
  have "exportDescriptor name =
      (''export AWS_PROFILE='' @ name) @ LF # (''unset AWS_ACCESS_KEY_ID'' @ LF #
        (''unset AWS_SECRET_ACCESS_KEY'' @ LF # []))"
    by (simp add: exportDescriptor_def)
  then show ?thesis
    by (simp only: split_append_sep [OF a] split_append_sep [OF b] split_append_sep [OF c]
        split.simps)
qed

lemma writeProfileToFile_created:
  "createFileApi env w (exportFile c) = None \<Longrightarrow>
   \<exists>w'. writeProfileToFile env c w = Ret () w'
      \<and> files w' = (files w)(exportFile c \<mapsto>
           take (fprintfApi env
                   ((emit (CreateFileEv (exportFile c) None) w)
                      \<lparr>files := (files w)(exportFile c \<mapsto> [])\<rparr>)
                   (exportFile c) (exportDescriptor (targetProfile c)))
             (exportDescriptor (targetProfile c)))"
  by (simp add: writeProfileToFile_def Let_def)

lemma writeProfileToFile_Ret:
  assumes "\<And>x p s. length s \<le> fprintfApi env x p s"
    and "writeProfileToFile env c w = Ret u w'"
  shows "files w' (exportFile c) = Some (exportDescriptor (targetProfile c))"
  using assms(2) assms(1)
  by (auto simp: writeProfileToFile_def Let_def die_def split: option.splits)

lemma chain_Ret_export:
  assumes "\<And>x p s. length s \<le> fprintfApi env x p s"
    and "exportProfile c" and "chain env c w = Ret u w'"
  shows "files w' (exportFile c) = Some (exportDescriptor (targetProfile c))"
proof -
  from assms(3) obtain w1 where "targetStep env c w1 = Ret u w'"
    by (auto simp: chain_def andThen_eq_Ret)
  then obtain w2 where "writeProfileToFile env c w2 = Ret u w'"
    using assms(2) by (auto simp: targetStep_def andThen_eq_Ret)
  with assms(1) show ?thesis by (rule writeProfileToFile_Ret)
qed

lemma chain_Halt_not_clean:
  "chain env c w = Halt out w1 \<Longrightarrow> out \<noteq> Exit 0"
  by (auto simp: chain_def intermediateStep_def targetStep_def targetSession_def
      mustSession_def ensureSessionTokenProfile_def validateSessionToken_def
      getSessionToken_def getTokenCode_def readString_def ensureTargetProfile_def
      getCallerId_def assumeRole_def writeProfileToFile_def die_def andThen_def Let_def
      split: res.splits sum.splits option.splits if_splits list.splits prod.splits)

text \<open>
  As long as every write goes through, the export file holds exactly the descriptor
  after every completed pass, whatever it held before and however many passes came
  before.
\<close>

lemma mainLoop_export:
  assumes full: "\<And>x p s. length s \<le> fprintfApi env x p s"
    and "exportProfile c"
  shows "fst (mainLoop n env c w) = Some (Exit 0)
      \<or> fst (mainLoop n env c w) = None
         \<and> (0 < n \<or> files w (exportFile c) = Some (exportDescriptor (targetProfile c))) \<Longrightarrow>
    files (snd (mainLoop n env c w)) (exportFile c) = Some (exportDescriptor (targetProfile c))"
proof (induction n arbitrary: w)
  case 0
  then show ?case by simp
next
  case (Suc n)
  show ?case
  proof (cases "chain env c w")
    case (Halt out w1)
    then have "out \<noteq> Exit 0" by (rule chain_Halt_not_clean)
    with Suc.prems Halt show ?thesis by simp
  next
    case (Ret u w1)
    have f: "files w1 (exportFile c) = Some (exportDescriptor (targetProfile c))"
      using full assms(2) Ret by (rule chain_Ret_export)
    show ?thesis
    proof (cases "renew c")
      case False
      with Ret f show ?thesis by (simp add: loopDecision_def)
    next
      case True
      let ?w2 = "emit (SleepEv (sleepDuration c)) w1"
      have eq: "mainLoop (Suc n) env c w = mainLoop n env c ?w2"
        using Ret True by (simp add: loopDecision_def)
      have "files ?w2 (exportFile c) = Some (exportDescriptor (targetProfile c))"
        using f by simp
      with Suc.prems eq have "fst (mainLoop n env c ?w2) = Some (Exit 0)
          \<or> fst (mainLoop n env c ?w2) = None
             \<and> (0 < n \<or> files ?w2 (exportFile c) = Some (exportDescriptor (targetProfile c)))"
        by auto
      then show ?thesis unfolding eq by (rule Suc.IH)
    qed
  qed
qed

text \<open>
  C7. The program does not keep this one. Line 117 drops what \<^verbatim>\<open>Fprintf\<close> returns,
  while the error of \<^verbatim>\<open>os.Create\<close> two lines above is fatal. On a full disk, with export
  enabled, the file can be created and the write into it fails: the pass completes all
  the same, the run ends with exit code 0 after the write that got no byte into the
  file, and the export file, which held other content before, is left empty.
\<close>

theorem export_write_error_is_ignored:
  "exportProfile plainConfig
   \<and> exportFile plainConfig = ''/tmp/out''
   \<and> fst (mainLoop (Suc 0) fullDiskEnv plainConfig
        (emptyWorld\<lparr>files := [''/tmp/out'' \<mapsto> ''old content'']\<rparr>)) = Some (Exit 0)
   \<and> last (trace (snd (mainLoop (Suc 0) fullDiskEnv plainConfig
        (emptyWorld\<lparr>files := [''/tmp/out'' \<mapsto> ''old content'']\<rparr>))))
      = WriteFileEv ''/tmp/out'' (exportDescriptor ''target'') 0
   \<and> files (snd (mainLoop (Suc 0) fullDiskEnv plainConfig
        (emptyWorld\<lparr>files := [''/tmp/out'' \<mapsto> ''old content'']\<rparr>))) ''/tmp/out''
      = Some []"
  by (simp add: run_defs sample_defs)

subsection \<open>The validator, the prompt and the status message\<close>

lemma validateSessionToken_session:
  "newSessionApi env w options = Inr reg \<Longrightarrow>
   validateSessionToken env options w =
     Ret (case getCallerIdentityApi env (emit (NewSessionEv options (Inr reg)) w)
                 \<lparr>sessOptions = options, sessRegion = reg\<rparr> of
            Inl err \<Rightarrow> False | Inr arn \<Rightarrow> True)
         (w\<lparr>trace := trace w @
            [NewSessionEv options (Inr reg),
             GetCallerIdentityEv \<lparr>sessOptions = options, sessRegion = reg\<rparr>
               (getCallerIdentityApi env (emit (NewSessionEv options (Inr reg)) w)
                  \<lparr>sessOptions = options, sessRegion = reg\<rparr>)]\<rparr>)"
  by (simp add: validateSessionToken_def mustSession_def Let_def emit_def)

lemma validateSessionToken_no_session:
  "newSessionApi env w options = Inl err \<Longrightarrow>
   validateSessionToken env options w =
     Halt (Panic err) (w\<lparr>trace := trace w @ [NewSessionEv options (Inl err)]\<rparr>)"
  by (simp add: validateSessionToken_def mustSession_def Let_def emit_def)

lemma validateSessionToken_Ret:
  "validateSessionToken env options w = Ret b w1 \<Longrightarrow>
   \<exists>reg r. newSessionApi env w options = Inr reg
     \<and> r = getCallerIdentityApi env (emit (NewSessionEv options (Inr reg)) w)
             \<lparr>sessOptions = options, sessRegion = reg\<rparr>
     \<and> b = (case r of Inl err \<Rightarrow> False | Inr arn \<Rightarrow> True)
     \<and> w1 = w\<lparr>trace := trace w @
          [NewSessionEv options (Inr reg),
           GetCallerIdentityEv \<lparr>sessOptions = options, sessRegion = reg\<rparr> r]\<rparr>"
  by (cases "newSessionApi env w options")
    (auto simp: validateSessionToken_no_session validateSessionToken_session)

text \<open>
  C6, as amended. When a session can be made from the given options,
  \<open>validateSessionToken\<close> returns true if the identity lookup answers and false if it
  fails with whatever error, and leaves the world as it was but for the two calls in
  the log: the store, the files and the operator's unread input are untouched and
  nothing is printed. When no session can be made, \<^verbatim>\<open>session.Must\<close> panics with the
  error of the session, again with nothing changed but the log.
\<close>

theorem validator_classifies_or_panics:
  "(newSessionApi env w options = Inr reg \<longrightarrow>
      validateSessionToken env options w =
        Ret (case getCallerIdentityApi env (emit (NewSessionEv options (Inr reg)) w)
                    \<lparr>sessOptions = options, sessRegion = reg\<rparr> of
               Inl err \<Rightarrow> False | Inr arn \<Rightarrow> True)
            (w\<lparr>trace := trace w @
               [NewSessionEv options (Inr reg),
                GetCallerIdentityEv \<lparr>sessOptions = options, sessRegion = reg\<rparr>
                  (getCallerIdentityApi env (emit (NewSessionEv options (Inr reg)) w)
                     \<lparr>sessOptions = options, sessRegion = reg\<rparr>)]\<rparr>))
   \<and> (newSessionApi env w options = Inl err \<longrightarrow>
        validateSessionToken env options w =
          Halt (Panic err) (w\<lparr>trace := trace w @ [NewSessionEv options (Inl err)]\<rparr>))
   \<and> store (worldOf (validateSessionToken env options w)) = store w
   \<and> files (worldOf (validateSessionToken env options w)) = files w
   \<and> stdin (worldOf (validateSessionToken env options w)) = stdin w"
proof -
  have "store (worldOf (validateSessionToken env options w)) = store w
   \<and> files (worldOf (validateSessionToken env options w)) = files w
   \<and> stdin (worldOf (validateSessionToken env options w)) = stdin w"
    by (cases "newSessionApi env w options")
      (simp_all add: validateSessionToken_no_session validateSessionToken_session)
  then show ?thesis
    using validateSessionToken_no_session validateSessionToken_session by blast
qed

theorem validator_classifies_or_panics_witness:
  "validateSessionToken sampleEnv (ProfileOptions ''eu-west-1'' ''mfa'') validWorld
     = Ret True (validWorld\<lparr>trace :=
         [NewSessionEv (ProfileOptions ''eu-west-1'' ''mfa'') (Inr (Some ''eu-west-1'')),
          GetCallerIdentityEv
            \<lparr>sessOptions = ProfileOptions ''eu-west-1'' ''mfa'', sessRegion = Some ''eu-west-1''\<rparr>
            (Inr ''arn:aws:iam::123:user/alice'')]\<rparr>)
   \<and> validateSessionToken sampleEnv (ProfileOptions ''eu-west-1'' ''mfa'') emptyWorld
     = Ret False (emptyWorld\<lparr>trace :=
         [NewSessionEv (ProfileOptions ''eu-west-1'' ''mfa'') (Inr (Some ''eu-west-1'')),
          GetCallerIdentityEv
            \<lparr>sessOptions = ProfileOptions ''eu-west-1'' ''mfa'', sessRegion = Some ''eu-west-1''\<rparr>
            (Inl ''ExpiredToken'')]\<rparr>)
   \<and> validateSessionToken noSessionEnv (ProfileOptions ''eu-west-1'' ''mfa'') validWorld
     = Halt (Panic ''SharedConfigLoadError'')
         (validWorld\<lparr>trace :=
            [NewSessionEv (ProfileOptions ''eu-west-1'' ''mfa'') (Inl ''SharedConfigLoadError'')]\<rparr>)"
proof -
  let ?o = "ProfileOptions ''eu-west-1'' ''mfa''"
  have s: "newSessionApi sampleEnv validWorld ?o = Inr (Some ''eu-west-1'')"
    "newSessionApi sampleEnv emptyWorld ?o = Inr (Some ''eu-west-1'')"
    by (simp_all add: sampleEnv_def)
  note a = validator_classifies_or_panics
    [of sampleEnv validWorld ?o "Some ''eu-west-1''" "[]", THEN conjunct1, THEN mp, OF s(1)]
  note b = validator_classifies_or_panics
    [of sampleEnv emptyWorld ?o "Some ''eu-west-1''" "[]", THEN conjunct1, THEN mp, OF s(2)]
  have n: "newSessionApi noSessionEnv validWorld ?o = Inl ''SharedConfigLoadError''"
    by (simp add: noSessionEnv_def)
  note c = validator_classifies_or_panics
    [of noSessionEnv validWorld ?o None "''SharedConfigLoadError''",
      THEN conjunct2, THEN conjunct1, THEN mp, OF n]
  from c have c': "validateSessionToken noSessionEnv ?o validWorld
     = Halt (Panic ''SharedConfigLoadError'')
         (validWorld\<lparr>trace := [NewSessionEv ?o (Inl ''SharedConfigLoadError'')]\<rparr>)"
    by (simp add: sample_defs)
  from a have a': "validateSessionToken sampleEnv ?o validWorld
     = Ret True (validWorld\<lparr>trace :=
         [NewSessionEv ?o (Inr (Some ''eu-west-1'')),
          GetCallerIdentityEv \<lparr>sessOptions = ?o, sessRegion = Some ''eu-west-1''\<rparr>
            (Inr ''arn:aws:iam::123:user/alice'')]\<rparr>)"
    by (simp add: sample_defs emit_def)
  from b have b': "validateSessionToken sampleEnv ?o emptyWorld
     = Ret False (emptyWorld\<lparr>trace :=
         [NewSessionEv ?o (Inr (Some ''eu-west-1'')),
          GetCallerIdentityEv \<lparr>sessOptions = ?o, sessRegion = Some ''eu-west-1''\<rparr>
            (Inl ''ExpiredToken'')]\<rparr>)"
    by (simp add: sample_defs emit_def)
  from a' b' c' show ?thesis by simp
qed

text \<open>
  The claim as it stands fails: where the shared configuration cannot be loaded, the
  validator does not answer false, it panics.
\<close>

theorem validator_never_raises_counterexample:
  "validateSessionToken noSessionEnv (ProfileOptions ''eu-west-1'' ''mfa'') emptyWorld
     = Halt (Panic ''SharedConfigLoadError'')
         (emptyWorld\<lparr>trace :=
            [NewSessionEv (ProfileOptions ''eu-west-1'' ''mfa'') (Inl ''SharedConfigLoadError'')]\<rparr>)"
  by (simp add: validateSessionToken_def mustSession_def Let_def emit_def sample_defs)

lemma ensureSessionTokenProfile_valid:
  "validateSessionToken env (ProfileOptions (region c) (intermediateProfile c)) w = Ret True w1 \<Longrightarrow>
   ensureSessionTokenProfile env c w =
     Ret () (emit (Stdout (stillValidMessage (profile c))) w1)"
  by (simp add: ensureSessionTokenProfile_def)

text \<open>
  C9. When the validator, asked about the intermediate profile, answers true, the
  line printed on standard output is the status message with the name of the base
  profile (\<open>profile\<close>) in it, not the name of the intermediate profile: the log goes on
  with the session for the intermediate profile, the successful lookup with that
  session, and that line.
\<close>

theorem valid_message_names_base_profile:
  assumes "validateSessionToken env (ProfileOptions (region c) (intermediateProfile c)) w
             = Ret True w1"
  shows "ensureSessionTokenProfile env c w =
           Ret () (emit (Stdout (''Session token for profile '' @ profile c
                     @ '' is still valid'' @ [LF])) w1)
    \<and> (\<exists>reg arn. newEvents w (worldOf (ensureSessionTokenProfile env c w)) =
          [NewSessionEv (ProfileOptions (region c) (intermediateProfile c)) (Inr reg),
           GetCallerIdentityEv
             \<lparr>sessOptions = ProfileOptions (region c) (intermediateProfile c),
              sessRegion = reg\<rparr> (Inr arn),
           Stdout (''Session token for profile '' @ profile c @ '' is still valid'' @ [LF])])"
proof -
  have e: "ensureSessionTokenProfile env c w =
      Ret () (emit (Stdout (stillValidMessage (profile c))) w1)"
    using assms by (rule ensureSessionTokenProfile_valid)
  from validateSessionToken_Ret [OF assms]
  obtain reg r where r: "(case r of Inl err \<Rightarrow> False | Inr arn \<Rightarrow> True)"
    and w1: "w1 = w\<lparr>trace := trace w @
          [NewSessionEv (ProfileOptions (region c) (intermediateProfile c)) (Inr reg),
           GetCallerIdentityEv \<lparr>sessOptions = ProfileOptions (region c) (intermediateProfile c),
              sessRegion = reg\<rparr> r]\<rparr>"
    by blast
  from r obtain arn where "r = Inr arn" by (cases r) auto
  with w1 e show ?thesis by (simp add: newEvents_def stillValidMessage_def)
qed

theorem valid_message_names_base_profile_witness:
  "profile sampleConfig = ''base'' \<and> intermediateProfile sampleConfig = ''mfa''
   \<and> last (trace (worldOf (ensureSessionTokenProfile sampleEnv sampleConfig validWorld)))
       = Stdout (''Session token for profile base is still valid'' @ [LF])"
proof -
  let ?w1 = "validWorld\<lparr>trace :=
         [NewSessionEv (ProfileOptions ''eu-west-1'' ''mfa'') (Inr (Some ''eu-west-1'')),
          GetCallerIdentityEv
            \<lparr>sessOptions = ProfileOptions ''eu-west-1'' ''mfa'', sessRegion = Some ''eu-west-1''\<rparr>
            (Inr ''arn:aws:iam::123:user/alice'')]\<rparr>"
  have v: "validateSessionToken sampleEnv
      (ProfileOptions (region sampleConfig) (intermediateProfile sampleConfig)) validWorld
        = Ret True ?w1"
    by (simp add: validateSessionToken_def mustSession_def Let_def emit_def sample_defs)
  note t = valid_message_names_base_profile [OF v, THEN conjunct1]
  have "last (trace (worldOf (ensureSessionTokenProfile sampleEnv sampleConfig validWorld)))
       = Stdout (''Session token for profile '' @ profile sampleConfig
                     @ '' is still valid'' @ [LF])"
    unfolding t by simp
  then show ?thesis by (simp add: sampleConfig_def)
qed

lemma trim_cutset_only: "set s \<subseteq> set cutset \<Longrightarrow> trim s cutset = []"
proof -
  assume "set s \<subseteq> set cutset"
  then have d: "dropWhile (\<lambda>c. c \<in> set cutset) s = []"
    by (induction s) simp_all
  show ?thesis unfolding trim_def d by simp
qed

lemma getTokenCode_blank:
  assumes "tokenSerial \<noteq> []" and "stdin w = Inr line # rest"
    and "set line \<subseteq> {CHR '' '', CR, LF}"
  shows "getTokenCode tokenSerial w =
    Ret (Some []) (w\<lparr>stdin := rest,
       trace := trace w @ [Stdout (mfaPrompt tokenSerial), ReadStdin (Inr line)]\<rparr>)"
proof -
  have "trim line [CHR '' '', CR, LF] = []"
    using assms(3) by (intro trim_cutset_only) simp
  with assms(1,2) show ?thesis
    by (simp add: getTokenCode_def readString_def Let_def emit_def)
qed

lemma getSessionToken_blank:
  assumes "tokenSerialNumber c \<noteq> []" and "newSessionApi env w options = Inr reg"
    and "stdin w = Inr line # rest" and "set line \<subseteq> {CHR '' '', CR, LF}"
  shows "\<exists>r post. newEvents w (worldOf (getSessionToken env options c w)) =
    [NewSessionEv options (Inr reg), Stdout (mfaPrompt (tokenSerialNumber c)),
     ReadStdin (Inr line),
     GetSessionTokenEv \<lparr>sessOptions = options, sessRegion = reg\<rparr> (intermediateDuration c)
       (tokenSerialNumber c) (Some []) r] @ post"
proof -
  let ?w1 = "emit (NewSessionEv options (Inr reg)) w"
  have m: "mustSession env options w = Ret \<lparr>sessOptions = options, sessRegion = reg\<rparr> ?w1"
    using assms(2) by (simp add: mustSession_def Let_def)
  have "stdin ?w1 = Inr line # rest" using assms(3) by simp
  from getTokenCode_blank [OF assms(1) this assms(4)]
  have g: "getTokenCode (tokenSerialNumber c) ?w1 =
    Ret (Some []) (?w1\<lparr>stdin := rest,
       trace := trace ?w1 @ [Stdout (mfaPrompt (tokenSerialNumber c)), ReadStdin (Inr line)]\<rparr>)" .
  show ?thesis
    by (simp add: getSessionToken_def m g Let_def newEvents_def die_def split: sum.splits)
qed

text \<open>
  C10. When the line the operator enters consists of spaces, carriage returns and
  line feeds only, \<open>getTokenCode\<close> returns the empty string as the code (a code that is
  present and empty, not the absence of a code), and \<open>getSessionToken\<close> goes on to call
  the provider with that empty code: after the session, the prompt and the read, the
  next entry of the log is the session-token call carrying it.
\<close>

theorem blank_mfa_line_is_sent_as_empty_code:
  "(tokenSerial \<noteq> [] \<and> stdin w = Inr line # rest \<and> set line \<subseteq> {CHR '' '', CR, LF} \<longrightarrow>
      getTokenCode tokenSerial w =
        Ret (Some []) (w\<lparr>stdin := rest,
          trace := trace w @ [Stdout (mfaPrompt tokenSerial), ReadStdin (Inr line)]\<rparr>))
   \<and> (tokenSerialNumber c \<noteq> [] \<and> newSessionApi env w options = Inr reg
        \<and> stdin w = Inr line # rest \<and> set line \<subseteq> {CHR '' '', CR, LF} \<longrightarrow>
        (\<exists>r post. newEvents w (worldOf (getSessionToken env options c w)) =
           [NewSessionEv options (Inr reg), Stdout (mfaPrompt (tokenSerialNumber c)),
            ReadStdin (Inr line),
            GetSessionTokenEv \<lparr>sessOptions = options, sessRegion = reg\<rparr>
              (intermediateDuration c) (tokenSerialNumber c) (Some []) r] @ post))"
  using getTokenCode_blank getSessionToken_blank by blast

theorem blank_mfa_line_is_sent_as_empty_code_witness:
  "getTokenCode ''arn:aws:iam::123:mfa/alice'' blankWorld =
     Ret (Some []) (blankWorld\<lparr>stdin := [],
       trace := [Stdout (mfaPrompt ''arn:aws:iam::123:mfa/alice''),
                 ReadStdin (Inr ('' '' @ [CR, LF]))]\<rparr>)
   \<and> newEvents blankWorld
        (worldOf (getSessionToken sampleEnv (ProfileOptions ''eu-west-1'' ''base'') sampleConfig
           blankWorld)) ! 3
     = GetSessionTokenEv
         \<lparr>sessOptions = ProfileOptions ''eu-west-1'' ''base'', sessRegion = Some ''eu-west-1''\<rparr>
         43200 ''arn:aws:iam::123:mfa/alice'' (Some []) (Inl ''AccessDenied'')"
proof -
  let ?serial = "''arn:aws:iam::123:mfa/alice''"
  let ?o = "ProfileOptions ''eu-west-1'' ''base''"
  have h1: "?serial \<noteq> [] \<and> stdin blankWorld = Inr ('' '' @ [CR, LF]) # []
      \<and> set ('' '' @ [CR, LF]) \<subseteq> {CHR '' '', CR, LF}"
    by (simp add: blankWorld_def emptyWorld_def)
  have h2: "tokenSerialNumber sampleConfig \<noteq> []
      \<and> newSessionApi sampleEnv blankWorld ?o = Inr (Some ''eu-west-1'')
      \<and> stdin blankWorld = Inr ('' '' @ [CR, LF]) # []
      \<and> set ('' '' @ [CR, LF]) \<subseteq> {CHR '' '', CR, LF}"
    by (simp add: blankWorld_def emptyWorld_def sampleConfig_def sampleEnv_def)
  note t = blank_mfa_line_is_sent_as_empty_code
    [of ?serial blankWorld "'' '' @ [CR, LF]" "[]" sampleConfig sampleEnv ?o "Some ''eu-west-1''"]
  have a: "getTokenCode ?serial blankWorld =
     Ret (Some []) (blankWorld\<lparr>stdin := [],
       trace := trace blankWorld @ [Stdout (mfaPrompt ?serial),
                 ReadStdin (Inr ('' '' @ [CR, LF]))]\<rparr>)"
    by (rule t [THEN conjunct1, THEN mp, OF h1])
  from t [THEN conjunct2, THEN mp, OF h2]
  obtain r post where b: "newEvents blankWorld
      (worldOf (getSessionToken sampleEnv ?o sampleConfig blankWorld)) =
        [NewSessionEv ?o (Inr (Some ''eu-west-1'')), Stdout (mfaPrompt (tokenSerialNumber sampleConfig)),
         ReadStdin (Inr ('' '' @ [CR, LF])),
         GetSessionTokenEv \<lparr>sessOptions = ?o, sessRegion = Some ''eu-west-1''\<rparr>
           (intermediateDuration sampleConfig) (tokenSerialNumber sampleConfig) (Some []) r] @ post"
    by blast
  have b': "newEvents blankWorld
        (worldOf (getSessionToken sampleEnv ?o sampleConfig blankWorld)) ! 3
     = GetSessionTokenEv \<lparr>sessOptions = ?o, sessRegion = Some ''eu-west-1''\<rparr>
         43200 ?serial (Some []) (Inl ''AccessDenied'')"
    by (simp add: run_defs sample_defs newEvents_def)
  have "trace blankWorld = []" by (simp add: blankWorld_def emptyWorld_def)
  with a b' show ?thesis by simp
qed

subsection \<open>What a completed pass has written\<close>

lemma map_filter_append:
  "List.map_filter f (xs @ ys) = List.map_filter f xs @ List.map_filter f ys"
  by (simp add: List.map_filter_def)

lemma mustSession_Ret:
  "mustSession env options w = Ret sess w1 \<Longrightarrow>
   \<exists>reg. newSessionApi env w options = Inr reg
     \<and> sess = \<lparr>sessOptions = options, sessRegion = reg\<rparr>
     \<and> w1 = emit (NewSessionEv options (Inr reg)) w"
  by (auto simp: mustSession_def Let_def split: sum.splits)

lemma getTokenCode_Ret:
  "tokenSerial \<noteq> [] \<Longrightarrow> getTokenCode tokenSerial w = Ret code w1 \<Longrightarrow>
   \<exists>line. code = Some (trim line [CHR '' '', CR, LF])
     \<and> trace w1 = trace w @ [Stdout (mfaPrompt tokenSerial), ReadStdin (Inr line)]
     \<and> store w1 = store w \<and> files w1 = files w"
  by (auto simp: getTokenCode_def readString_def Let_def die_def
      split: list.splits sum.splits)

lemma getSessionToken_Ret:
  "tokenSerialNumber c \<noteq> [] \<Longrightarrow> getSessionToken env options c w = Ret cred w' \<Longrightarrow>
   \<exists>reg line. trace w' = trace w @
       [NewSessionEv options (Inr reg), Stdout (mfaPrompt (tokenSerialNumber c)),
        ReadStdin (Inr line),
        GetSessionTokenEv \<lparr>sessOptions = options, sessRegion = reg\<rparr> (intermediateDuration c)
          (tokenSerialNumber c) (Some (trim line [CHR '' '', CR, LF])) (Inr cred)]
     \<and> store w' = store w"
proof -
  assume serial: "tokenSerialNumber c \<noteq> []"
  assume "getSessionToken env options c w = Ret cred w'"
  then obtain sess w1 code w2 where m: "mustSession env options w = Ret sess w1"
    and g: "getTokenCode (tokenSerialNumber c) w1 = Ret code w2"
    and r: "(let r = getSessionTokenApi env w2 sess (intermediateDuration c)
                    (tokenSerialNumber c) code;
              w3 = emit (GetSessionTokenEv sess (intermediateDuration c)
                    (tokenSerialNumber c) code r) w2
          in case r of
               Inl err \<Rightarrow> die ''Error getting session token'' err w3
             | Inr cred \<Rightarrow> Ret cred w3) = Ret cred w'"
    unfolding getSessionToken_def andThen_eq_Ret by blast
  from mustSession_Ret [OF m] obtain reg where
    sess: "sess = \<lparr>sessOptions = options, sessRegion = reg\<rparr>"
    and w1: "w1 = emit (NewSessionEv options (Inr reg)) w"
    by blast
  from getTokenCode_Ret [OF serial g] obtain line where
    code: "code = Some (trim line [CHR '' '', CR, LF])"
    and w2: "trace w2 = trace w1 @ [Stdout (mfaPrompt (tokenSerialNumber c)), ReadStdin (Inr line)]"
      "store w2 = store w1"
    by blast
  from r have "w' = emit (GetSessionTokenEv sess (intermediateDuration c)
                    (tokenSerialNumber c) code (Inr cred)) w2"
    by (auto simp: Let_def die_def split: sum.splits)
  with sess w1 code w2 show ?thesis by simp
qed

lemma ensureSessionTokenProfile_Ret:
  assumes "tokenSerialNumber c \<noteq> []" and "ensureSessionTokenProfile env c w = Ret u w'"
  shows "\<exists>evs. trace w' = trace w @ evs
      \<and> List.map_filter assumed evs = []
      \<and> (List.map_filter issued evs = [] \<and> List.map_filter written evs = []
            \<and> store w' = store w
          \<or> (\<exists>cred. List.map_filter issued evs = [cred]
               \<and> List.map_filter written evs = [(intermediateProfile c, cred)]
               \<and> store w' = (store w)(intermediateProfile c \<mapsto> (cred, Some (region c)))))"
proof -
  from assms(2) obtain valid w1 where
    v: "validateSessionToken env (ProfileOptions (region c) (intermediateProfile c)) w
          = Ret valid w1"
    and rest: "(if valid then Ret () (emit (Stdout (stillValidMessage (profile c))) w1)
         else andThen (getSessionToken env (ProfileOptions (region c) (profile c)) c w1)
             (\<lambda>cred w2.
               Ret () (writeProfile cred (intermediateProfile c) (Some (region c)) w2)))
        = Ret u w'"
    unfolding ensureSessionTokenProfile_def andThen_eq_Ret by blast
  from validateSessionToken_Ret [OF v] obtain reg r where
    w1: "w1 = w\<lparr>trace := trace w @
          [NewSessionEv (ProfileOptions (region c) (intermediateProfile c)) (Inr reg),
           GetCallerIdentityEv \<lparr>sessOptions = ProfileOptions (region c) (intermediateProfile c),
              sessRegion = reg\<rparr> r]\<rparr>"
    by blast
  show ?thesis
  proof (cases valid)
    case True
    with rest have "w' = emit (Stdout (stillValidMessage (profile c))) w1" by simp
    with w1 show ?thesis by (simp add: List.map_filter_simps)
  next
    case False
    with rest obtain cred w2 where
      g: "getSessionToken env (ProfileOptions (region c) (profile c)) c w1 = Ret cred w2"
      and w': "w' = writeProfile cred (intermediateProfile c) (Some (region c)) w2"
      by (auto simp: andThen_eq_Ret)
    from getSessionToken_Ret [OF assms(1) g] obtain reg' line where
      w2: "trace w2 = trace w1 @
       [NewSessionEv (ProfileOptions (region c) (profile c)) (Inr reg'),
        Stdout (mfaPrompt (tokenSerialNumber c)), ReadStdin (Inr line),
        GetSessionTokenEv \<lparr>sessOptions = ProfileOptions (region c) (profile c),
          sessRegion = reg'\<rparr> (intermediateDuration c)
          (tokenSerialNumber c) (Some (trim line [CHR '' '', CR, LF])) (Inr cred)]"
      "store w2 = store w1"
      by blast
    from w1 w2 w' show ?thesis by (simp add: List.map_filter_simps)
  qed
qed

lemma intermediateStep_Ret:
  assumes "intermediateStep env c w = Ret u w'"
  shows "\<exists>evs. trace w' = trace w @ evs
      \<and> List.map_filter assumed evs = []
      \<and> (List.map_filter issued evs = [] \<and> List.map_filter written evs = []
            \<and> store w' = store w
          \<or> (\<exists>cred. List.map_filter issued evs = [cred]
               \<and> List.map_filter written evs = [(intermediateProfile c, cred)]
               \<and> store w' = (store w)(intermediateProfile c \<mapsto> (cred, Some (region c)))))"
proof (cases "tokenSerialNumber c = []")
  case True
  with assms have "w' = w" by (simp add: intermediateStep_def)
  then show ?thesis by (simp add: List.map_filter_simps)
next
  case False
  with assms have "ensureSessionTokenProfile env c w = Ret u w'"
    by (simp add: intermediateStep_def)
  with False show ?thesis by (rule ensureSessionTokenProfile_Ret)
qed

lemma ensureTargetProfile_Ret:
  assumes "ensureTargetProfile env c sess w = Ret u w'"
  shows "\<exists>arn cred. trace w' = trace w @
       [GetCallerIdentityEv sess (Inr arn),
        AssumeRoleEv sess (roleArn c) (roleSessionNameOf arn) (targetDuration c) (Inr cred),
        WriteProfileEv cred (targetProfile c) (sessRegion sess)]
     \<and> store w' = (store w)(targetProfile c \<mapsto> (cred, sessRegion sess))"
proof -
  from assms obtain arn w1 cred w2 where g: "getCallerId env sess w = Ret arn w1"
    and a: "assumeRole env sess (roleArn c) (roleSessionNameOf arn) (targetDuration c) w1
              = Ret cred w2"
    and w': "w' = writeProfile cred (targetProfile c) (sessRegion sess) w2"
    unfolding ensureTargetProfile_def andThen_eq_Ret by auto
  from g have w1: "w1 = emit (GetCallerIdentityEv sess (Inr arn)) w"
    by (auto simp: getCallerId_def Let_def die_def split: sum.splits)
  from a have w2: "w2 = emit (AssumeRoleEv sess (roleArn c) (roleSessionNameOf arn)
      (targetDuration c) (Inr cred)) w1"
    by (auto simp: assumeRole_def Let_def die_def split: sum.splits)
  from w1 w2 w' show ?thesis by simp
qed

lemma writeProfileToFile_Ret_trace:
  assumes "writeProfileToFile env c w = Ret u w'"
  shows "\<exists>n. trace w' = trace w @
      [CreateFileEv (exportFile c) None,
       WriteFileEv (exportFile c) (exportDescriptor (targetProfile c)) n]
    \<and> store w' = store w"
  using assms by (auto simp: writeProfileToFile_def Let_def die_def split: option.splits)

lemma targetSession_Ret:
  assumes "targetSession env c w = Ret sess w1"
  shows "\<exists>r. trace w1 = trace w @ [NewSessionEv (sessOptions sess) r] \<and> store w1 = store w"
proof (cases "useInstanceProfile c")
  case True
  with assms have "mustSession env DefaultOptions w = Ret sess w1"
    by (simp add: targetSession_def)
  from mustSession_Ret [OF this] show ?thesis by auto
next
  case False
  with assms have "mustSession env (ProfileOptions (region c) (baseProfile c)) w = Ret sess w1"
    by (simp add: targetSession_def)
  from mustSession_Ret [OF this] show ?thesis by auto
qed

lemma targetStep_Ret:
  assumes "targetStep env c w = Ret u w'"
  shows "\<exists>evs cred reg. trace w' = trace w @ evs
      \<and> List.map_filter assumed evs = [cred]
      \<and> List.map_filter issued evs = []
      \<and> List.map_filter written evs = [(targetProfile c, cred)]
      \<and> store w' = (store w)(targetProfile c \<mapsto> (cred, reg))"
proof -
  from assms obtain sess w1 u' w2 where s: "targetSession env c w = Ret sess w1"
    and e: "ensureTargetProfile env c sess w1 = Ret u' w2"
    and x: "(if exportProfile c then writeProfileToFile env c w2 else Ret () w2) = Ret u w'"
    unfolding targetStep_def andThen_eq_Ret by blast
  from targetSession_Ret [OF s] obtain r where
    w1: "trace w1 = trace w @ [NewSessionEv (sessOptions sess) r]" "store w1 = store w"
    by blast
  from ensureTargetProfile_Ret [OF e] obtain arn cred where
    w2: "trace w2 = trace w1 @
       [GetCallerIdentityEv sess (Inr arn),
        AssumeRoleEv sess (roleArn c) (roleSessionNameOf arn) (targetDuration c) (Inr cred),
        WriteProfileEv cred (targetProfile c) (sessRegion sess)]"
      "store w2 = (store w1)(targetProfile c \<mapsto> (cred, sessRegion sess))"
    by blast
  show ?thesis
  proof (cases "exportProfile c")
    case True
    with x have "writeProfileToFile env c w2 = Ret u w'" by simp
    from writeProfileToFile_Ret_trace [OF this] obtain n where
      "trace w' = trace w2 @
        [CreateFileEv (exportFile c) None,
         WriteFileEv (exportFile c) (exportDescriptor (targetProfile c)) n]"
      "store w' = store w2"
      by blast
    with w1 w2 show ?thesis
      by (auto simp: List.map_filter_simps)
  next
    case False
    with x have "w' = w2" by simp
    with w1 w2 show ?thesis by (auto simp: List.map_filter_simps)
  qed
qed

text \<open>
  C3. In every pass that completes, exactly one role assumption has answered with
  credentials, and the entry written under the target profile name is that answer,
  which is also what the store holds under that name afterwards. When no session token
  was issued in the pass, nothing else was written. When one was issued (the renewal
  branch), it was written under the intermediate profile name before that, as the
  provider returned it, and the store still holds it there afterwards if the two
  profile names differ.
\<close>

theorem persisted_credentials_are_provider_results:
  assumes "chain env c w = Ret () w'"
  shows "\<exists>credT reg.
      List.map_filter assumed (newEvents w w') = [credT]
    \<and> store w' (targetProfile c) = Some (credT, reg)
    \<and> (List.map_filter issued (newEvents w w') = []
          \<and> List.map_filter written (newEvents w w') = [(targetProfile c, credT)]
        \<or> (\<exists>credI. List.map_filter issued (newEvents w w') = [credI]
             \<and> List.map_filter written (newEvents w w')
                 = [(intermediateProfile c, credI), (targetProfile c, credT)]
             \<and> (intermediateProfile c \<noteq> targetProfile c \<longrightarrow>
                  store w' (intermediateProfile c) = Some (credI, Some (region c)))))"
proof -
  from assms obtain w1 where i: "intermediateStep env c w = Ret () w1"
    and t: "targetStep env c w1 = Ret () w'"
    unfolding chain_def andThen_eq_Ret by auto
  from intermediateStep_Ret [OF i] obtain evs where
    evs: "trace w1 = trace w @ evs" "List.map_filter assumed evs = []"
    and alt: "List.map_filter issued evs = [] \<and> List.map_filter written evs = []
            \<and> store w1 = store w
          \<or> (\<exists>cred. List.map_filter issued evs = [cred]
               \<and> List.map_filter written evs = [(intermediateProfile c, cred)]
               \<and> store w1 = (store w)(intermediateProfile c \<mapsto> (cred, Some (region c))))"
    by blast
  from targetStep_Ret [OF t] obtain evs' credT reg where
    evs': "trace w' = trace w1 @ evs'" "List.map_filter assumed evs' = [credT]"
      "List.map_filter issued evs' = []"
      "List.map_filter written evs' = [(targetProfile c, credT)]"
      "store w' = (store w1)(targetProfile c \<mapsto> (credT, reg))"
    by blast
  have n: "newEvents w w' = evs @ evs'"
    using evs(1) evs'(1) by (simp add: newEvents_def)
  from alt show ?thesis
  proof
    assume "List.map_filter issued evs = [] \<and> List.map_filter written evs = []
            \<and> store w1 = store w"
    with evs evs' show ?thesis unfolding n by (simp add: map_filter_append)
  next
    assume "\<exists>cred. List.map_filter issued evs = [cred]
               \<and> List.map_filter written evs = [(intermediateProfile c, cred)]
               \<and> store w1 = (store w)(intermediateProfile c \<mapsto> (cred, Some (region c)))"
    then obtain credI where "List.map_filter issued evs = [credI]"
      "List.map_filter written evs = [(intermediateProfile c, credI)]"
      "store w1 = (store w)(intermediateProfile c \<mapsto> (credI, Some (region c)))"
      by blast
    with evs evs' show ?thesis unfolding n by (simp add: map_filter_append)
  qed
qed

theorem persisted_credentials_are_provider_results_witness:
  "chain sampleEnv sampleConfig typingWorld
     = Ret () (worldOf (chain sampleEnv sampleConfig typingWorld))
   \<and> List.map_filter written
        (newEvents typingWorld (worldOf (chain sampleEnv sampleConfig typingWorld)))
     = [(''mfa'', sampleCredentials ''ASIAINTERMEDIATE''),
        (''target'', sampleCredentials ''ASIATARGET'')]
   \<and> store (worldOf (chain sampleEnv sampleConfig typingWorld)) ''mfa''
     = Some (sampleCredentials ''ASIAINTERMEDIATE'', Some ''eu-west-1'')"
proof -
  let ?w' = "worldOf (chain sampleEnv sampleConfig typingWorld)"
  have h: "chain sampleEnv sampleConfig typingWorld = Ret () ?w'"
    by (simp add: run_defs sample_defs)
  have i: "List.map_filter issued (newEvents typingWorld ?w')
      = [sampleCredentials ''ASIAINTERMEDIATE'']"
    by (simp add: run_defs sample_defs newEvents_def List.map_filter_simps)
  have a: "List.map_filter assumed (newEvents typingWorld ?w')
      = [sampleCredentials ''ASIATARGET'']"
    by (simp add: run_defs sample_defs newEvents_def List.map_filter_simps)
  have n: "intermediateProfile sampleConfig = ''mfa''" "targetProfile sampleConfig = ''target''"
    "region sampleConfig = ''eu-west-1''"
    by (simp_all add: sampleConfig_def)
  from persisted_credentials_are_provider_results [OF h]
  obtain credT reg where t: "List.map_filter assumed (newEvents typingWorld ?w') = [credT]"
    and alt: "List.map_filter issued (newEvents typingWorld ?w') = []
          \<and> List.map_filter written (newEvents typingWorld ?w')
              = [(targetProfile sampleConfig, credT)]
        \<or> (\<exists>credI. List.map_filter issued (newEvents typingWorld ?w') = [credI]
             \<and> List.map_filter written (newEvents typingWorld ?w')
                 = [(intermediateProfile sampleConfig, credI), (targetProfile sampleConfig, credT)]
             \<and> (intermediateProfile sampleConfig \<noteq> targetProfile sampleConfig \<longrightarrow>
                  store ?w' (intermediateProfile sampleConfig)
                    = Some (credI, Some (region sampleConfig))))"
    by blast
  from t a have ct: "credT = sampleCredentials ''ASIATARGET''" by simp
  from alt i obtain credI where ci: "[sampleCredentials ''ASIAINTERMEDIATE''] = [credI]"
    and w: "List.map_filter written (newEvents typingWorld ?w')
                 = [(intermediateProfile sampleConfig, credI), (targetProfile sampleConfig, credT)]"
    and s: "intermediateProfile sampleConfig \<noteq> targetProfile sampleConfig \<longrightarrow>
                  store ?w' (intermediateProfile sampleConfig)
                    = Some (credI, Some (region sampleConfig))"
    by auto
  from ci have ci': "credI = sampleCredentials ''ASIAINTERMEDIATE''" by simp
  from w s show ?thesis unfolding ct ci' n using h by simp
qed

subsection \<open>The intermediate hop\<close>

lemma chain_after_intermediate:
  "intermediateStep env c w = Ret u w1 \<Longrightarrow> chain env c w = targetStep env c w1"
  by (simp add: chain_def)

lemma ensureSessionTokenProfile_renew:
  assumes v: "validateSessionToken env (ProfileOptions (region c) (intermediateProfile c)) w
                = Ret False w1"
    and m: "mustSession env (ProfileOptions (region c) (profile c)) w1 = Ret sess w2"
    and g: "getTokenCode (tokenSerialNumber c) w2 = Ret code w3"
  shows "ensureSessionTokenProfile env c w =
     (case getSessionTokenApi env w3 sess (intermediateDuration c) (tokenSerialNumber c) code of
        Inl err \<Rightarrow>
          Halt (Exit 1) (w3\<lparr>trace := trace w3 @
            [GetSessionTokenEv sess (intermediateDuration c) (tokenSerialNumber c) code (Inl err),
             Stderr (''Error getting session token: '' @ err @ [LF])]\<rparr>)
      | Inr cred \<Rightarrow>
          Ret () (w3\<lparr>store := (store w3)(intermediateProfile c \<mapsto> (cred, Some (region c))),
            trace := trace w3 @
              [GetSessionTokenEv sess (intermediateDuration c) (tokenSerialNumber c) code
                 (Inr cred),
               WriteProfileEv cred (intermediateProfile c) (Some (region c))]\<rparr>))"
  by (simp add: ensureSessionTokenProfile_def v getSessionToken_def m g Let_def die_def
      writeProfile_def emit_def split: sum.splits)

lemma intermediate_valid:
  assumes "tokenSerialNumber c \<noteq> []"
    and v: "validateSessionToken env (ProfileOptions (region c) (intermediateProfile c)) w
            = Ret True w1"
  shows "intermediateStep env c w = Ret () (emit (Stdout (stillValidMessage (profile c))) w1)
        \<and> chain env c w = targetStep env c (emit (Stdout (stillValidMessage (profile c))) w1)
        \<and> stdin w1 = stdin w \<and> store w1 = store w
        \<and> (\<exists>reg arn. newEvents w w1 =
              [NewSessionEv (ProfileOptions (region c) (intermediateProfile c)) (Inr reg),
               GetCallerIdentityEv
                 \<lparr>sessOptions = ProfileOptions (region c) (intermediateProfile c),
                  sessRegion = reg\<rparr> (Inr arn)])"
proof -
  have e: "ensureSessionTokenProfile env c w =
      Ret () (emit (Stdout (stillValidMessage (profile c))) w1)"
    using v by (rule ensureSessionTokenProfile_valid)
  have i: "intermediateStep env c w = Ret () (emit (Stdout (stillValidMessage (profile c))) w1)"
    unfolding intermediateStep_def e using assms(1) by simp
  have ch: "chain env c w = targetStep env c (emit (Stdout (stillValidMessage (profile c))) w1)"
    using i by (rule chain_after_intermediate)
  from validateSessionToken_Ret [OF v]
  obtain reg r where r: "(case r of Inl err \<Rightarrow> False | Inr arn \<Rightarrow> True)"
    and w1: "w1 = w\<lparr>trace := trace w @
          [NewSessionEv (ProfileOptions (region c) (intermediateProfile c)) (Inr reg),
           GetCallerIdentityEv \<lparr>sessOptions = ProfileOptions (region c) (intermediateProfile c),
              sessRegion = reg\<rparr> r]\<rparr>"
    by blast
  from r obtain arn where arn: "r = Inr arn" by (cases r) simp_all
  have s: "stdin w1 = stdin w" "store w1 = store w" unfolding w1 by simp_all
  have n: "newEvents w w1 =
              [NewSessionEv (ProfileOptions (region c) (intermediateProfile c)) (Inr reg),
               GetCallerIdentityEv
                 \<lparr>sessOptions = ProfileOptions (region c) (intermediateProfile c),
                  sessRegion = reg\<rparr> (Inr arn)]"
    unfolding w1 arn by (simp add: newEvents_def)
  from i ch s n show ?thesis by blast
qed
lemma intermediate_renew:
  assumes serial: "tokenSerialNumber c \<noteq> []"
    and v: "validateSessionToken env (ProfileOptions (region c) (intermediateProfile c)) w
            = Ret False w1"
    and m: "mustSession env (ProfileOptions (region c) (profile c)) w1 = Ret sess w2"
    and g: "getTokenCode (tokenSerialNumber c) w2 = Ret code w3"
  shows "sessOptions sess = ProfileOptions (region c) (profile c)"
    and "\<exists>line. code = Some (trim line [CHR '' '', CR, LF])
             \<and> newEvents w2 w3 = [Stdout (mfaPrompt (tokenSerialNumber c)), ReadStdin (Inr line)]"
    and "take 1 (newEvents w3 (worldOf (intermediateStep env c w))) =
            [GetSessionTokenEv sess (intermediateDuration c) (tokenSerialNumber c) code
               (getSessionTokenApi env w3 sess (intermediateDuration c) (tokenSerialNumber c)
                  code)]"
    and "getSessionTokenApi env w3 sess (intermediateDuration c)
                     (tokenSerialNumber c) code = Inr cred \<Longrightarrow>
             (\<exists>w4. intermediateStep env c w = Ret () w4
                \<and> chain env c w = targetStep env c w4
                \<and> newEvents w3 w4 =
                    [GetSessionTokenEv sess (intermediateDuration c) (tokenSerialNumber c) code
                       (Inr cred),
                     WriteProfileEv cred (intermediateProfile c) (Some (region c))]
                \<and> store w4 = (store w3)(intermediateProfile c \<mapsto> (cred, Some (region c))))"
proof -
  note e = ensureSessionTokenProfile_renew [OF v m g]
  have i: "intermediateStep env c w = ensureSessionTokenProfile env c w"
    using serial by (simp add: intermediateStep_def)
  show "sessOptions sess = ProfileOptions (region c) (profile c)"
    using mustSession_Ret [OF m] by auto
  from getTokenCode_Ret [OF serial g] obtain line where
    l: "code = Some (trim line [CHR '' '', CR, LF])"
      "trace w3 = trace w2 @ [Stdout (mfaPrompt (tokenSerialNumber c)), ReadStdin (Inr line)]"
    by blast
  from l(2) have "newEvents w2 w3 = [Stdout (mfaPrompt (tokenSerialNumber c)), ReadStdin (Inr line)]"
    by (simp add: newEvents_def)
  with l(1) show "\<exists>line. code = Some (trim line [CHR '' '', CR, LF])
             \<and> newEvents w2 w3 = [Stdout (mfaPrompt (tokenSerialNumber c)), ReadStdin (Inr line)]"
    by blast
  show "take 1 (newEvents w3 (worldOf (intermediateStep env c w))) =
            [GetSessionTokenEv sess (intermediateDuration c) (tokenSerialNumber c) code
               (getSessionTokenApi env w3 sess (intermediateDuration c) (tokenSerialNumber c)
                  code)]"
  proof (cases "getSessionTokenApi env w3 sess (intermediateDuration c) (tokenSerialNumber c)
                  code")
    case (Inl err)
    show ?thesis unfolding i e Inl by (simp add: newEvents_def)
  next
    case (Inr cr)
    show ?thesis unfolding i e Inr by (simp add: newEvents_def)
  qed
  assume a: "getSessionTokenApi env w3 sess (intermediateDuration c)
                     (tokenSerialNumber c) code = Inr cred"
  let ?w4 = "w3\<lparr>store := (store w3)(intermediateProfile c \<mapsto> (cred, Some (region c))),
            trace := trace w3 @
              [GetSessionTokenEv sess (intermediateDuration c) (tokenSerialNumber c) code
                 (Inr cred),
               WriteProfileEv cred (intermediateProfile c) (Some (region c))]\<rparr>"
  have r: "intermediateStep env c w = Ret () ?w4"
    unfolding i e a by simp
  have ch: "chain env c w = targetStep env c ?w4"
    using r by (rule chain_after_intermediate)
  have n: "newEvents w3 ?w4 =
                    [GetSessionTokenEv sess (intermediateDuration c) (tokenSerialNumber c) code
                       (Inr cred),
                     WriteProfileEv cred (intermediateProfile c) (Some (region c))]"
    by (simp add: newEvents_def)
  have s: "store ?w4 = (store w3)(intermediateProfile c \<mapsto> (cred, Some (region c)))"
    by simp
  from r ch n s show "\<exists>w4. intermediateStep env c w = Ret () w4
                \<and> chain env c w = targetStep env c w4
                \<and> newEvents w3 w4 =
                    [GetSessionTokenEv sess (intermediateDuration c) (tokenSerialNumber c) code
                       (Inr cred),
                     WriteProfileEv cred (intermediateProfile c) (Some (region c))]
                \<and> store w4 = (store w3)(intermediateProfile c \<mapsto> (cred, Some (region c)))"
    by blast
qed
text \<open>
  C1. With an MFA device configured, in a pass begun in any world: if the validator
  answers true for the intermediate profile, the intermediate step only prints the
  status message after the validator's two calls (nothing is read, no session token is
  asked for, nothing is written) and the pass goes on with the assume-role step. If
  it answers false, the session for the renewal is made for the base profile
  (\<open>profile\<close>); the prompt names the configured serial and the code is the trimmed
  line; the call that follows is the session-token call with that session, the
  intermediate duration, the serial and that code; and when it answers with
  credentials, these are written under the intermediate profile name, and the pass
  goes on with the assume-role step.
\<close>

theorem mfa_intermediate_check_then_renew:
  assumes "tokenSerialNumber c \<noteq> []"
  shows "(validateSessionToken env (ProfileOptions (region c) (intermediateProfile c)) w
            = Ret True w1 \<longrightarrow>
          intermediateStep env c w = Ret () (emit (Stdout (stillValidMessage (profile c))) w1)
        \<and> chain env c w = targetStep env c (emit (Stdout (stillValidMessage (profile c))) w1)
        \<and> stdin w1 = stdin w \<and> store w1 = store w
        \<and> (\<exists>reg arn. newEvents w w1 =
              [NewSessionEv (ProfileOptions (region c) (intermediateProfile c)) (Inr reg),
               GetCallerIdentityEv
                 \<lparr>sessOptions = ProfileOptions (region c) (intermediateProfile c),
                  sessRegion = reg\<rparr> (Inr arn)]))
    \<and> (validateSessionToken env (ProfileOptions (region c) (intermediateProfile c)) w
            = Ret False w1
        \<and> mustSession env (ProfileOptions (region c) (profile c)) w1 = Ret sess w2
        \<and> getTokenCode (tokenSerialNumber c) w2 = Ret code w3 \<longrightarrow>
          sessOptions sess = ProfileOptions (region c) (profile c)
        \<and> (\<exists>line. code = Some (trim line [CHR '' '', CR, LF])
             \<and> newEvents w2 w3 = [Stdout (mfaPrompt (tokenSerialNumber c)), ReadStdin (Inr line)])
        \<and> take 1 (newEvents w3 (worldOf (intermediateStep env c w))) =
            [GetSessionTokenEv sess (intermediateDuration c) (tokenSerialNumber c) code
               (getSessionTokenApi env w3 sess (intermediateDuration c) (tokenSerialNumber c)
                  code)]
        \<and> (\<forall>cred. getSessionTokenApi env w3 sess (intermediateDuration c)
                     (tokenSerialNumber c) code = Inr cred \<longrightarrow>
             (\<exists>w4. intermediateStep env c w = Ret () w4
                \<and> chain env c w = targetStep env c w4
                \<and> newEvents w3 w4 =
                    [GetSessionTokenEv sess (intermediateDuration c) (tokenSerialNumber c) code
                       (Inr cred),
                     WriteProfileEv cred (intermediateProfile c) (Some (region c))]
                \<and> store w4 = (store w3)(intermediateProfile c \<mapsto> (cred, Some (region c))))))"
proof -
  have a: "validateSessionToken env (ProfileOptions (region c) (intermediateProfile c)) w
            = Ret True w1 \<longrightarrow>
          intermediateStep env c w = Ret () (emit (Stdout (stillValidMessage (profile c))) w1)
        \<and> chain env c w = targetStep env c (emit (Stdout (stillValidMessage (profile c))) w1)
        \<and> stdin w1 = stdin w \<and> store w1 = store w
        \<and> (\<exists>reg arn. newEvents w w1 =
              [NewSessionEv (ProfileOptions (region c) (intermediateProfile c)) (Inr reg),
               GetCallerIdentityEv
                 \<lparr>sessOptions = ProfileOptions (region c) (intermediateProfile c),
                  sessRegion = reg\<rparr> (Inr arn)])"
    using intermediate_valid [OF assms] by (rule impI)
  have b: "validateSessionToken env (ProfileOptions (region c) (intermediateProfile c)) w
            = Ret False w1
        \<and> mustSession env (ProfileOptions (region c) (profile c)) w1 = Ret sess w2
        \<and> getTokenCode (tokenSerialNumber c) w2 = Ret code w3 \<longrightarrow>
          sessOptions sess = ProfileOptions (region c) (profile c)
        \<and> (\<exists>line. code = Some (trim line [CHR '' '', CR, LF])
             \<and> newEvents w2 w3 = [Stdout (mfaPrompt (tokenSerialNumber c)), ReadStdin (Inr line)])
        \<and> take 1 (newEvents w3 (worldOf (intermediateStep env c w))) =
            [GetSessionTokenEv sess (intermediateDuration c) (tokenSerialNumber c) code
               (getSessionTokenApi env w3 sess (intermediateDuration c) (tokenSerialNumber c)
                  code)]
        \<and> (\<forall>cred. getSessionTokenApi env w3 sess (intermediateDuration c)
                     (tokenSerialNumber c) code = Inr cred \<longrightarrow>
             (\<exists>w4. intermediateStep env c w = Ret () w4
                \<and> chain env c w = targetStep env c w4
                \<and> newEvents w3 w4 =
                    [GetSessionTokenEv sess (intermediateDuration c) (tokenSerialNumber c) code
                       (Inr cred),
                     WriteProfileEv cred (intermediateProfile c) (Some (region c))]
                \<and> store w4 = (store w3)(intermediateProfile c \<mapsto> (cred, Some (region c)))))"
  proof (rule impI, elim conjE)
    assume v: "validateSessionToken env (ProfileOptions (region c) (intermediateProfile c)) w
            = Ret False w1"
      and m: "mustSession env (ProfileOptions (region c) (profile c)) w1 = Ret sess w2"
      and g: "getTokenCode (tokenSerialNumber c) w2 = Ret code w3"
    note r = intermediate_renew [OF assms v m g]
    from r(1) r(2) r(3) r(4) show "sessOptions sess = ProfileOptions (region c) (profile c)
        \<and> (\<exists>line. code = Some (trim line [CHR '' '', CR, LF])
             \<and> newEvents w2 w3 = [Stdout (mfaPrompt (tokenSerialNumber c)), ReadStdin (Inr line)])
        \<and> take 1 (newEvents w3 (worldOf (intermediateStep env c w))) =
            [GetSessionTokenEv sess (intermediateDuration c) (tokenSerialNumber c) code
               (getSessionTokenApi env w3 sess (intermediateDuration c) (tokenSerialNumber c)
                  code)]
        \<and> (\<forall>cred. getSessionTokenApi env w3 sess (intermediateDuration c)
                     (tokenSerialNumber c) code = Inr cred \<longrightarrow>
             (\<exists>w4. intermediateStep env c w = Ret () w4
                \<and> chain env c w = targetStep env c w4
                \<and> newEvents w3 w4 =
                    [GetSessionTokenEv sess (intermediateDuration c) (tokenSerialNumber c) code
                       (Inr cred),
                     WriteProfileEv cred (intermediateProfile c) (Some (region c))]
                \<and> store w4 = (store w3)(intermediateProfile c \<mapsto> (cred, Some (region c)))))"
      by blast
  qed
  from a b show ?thesis by (rule conjI)
qed

theorem mfa_intermediate_check_then_renew_witness:
  "chain sampleEnv sampleConfig validWorld
     = targetStep sampleEnv sampleConfig
         (emit (Stdout (stillValidMessage ''base''))
            (worldOf (validateSessionToken sampleEnv (ProfileOptions ''eu-west-1'' ''mfa'')
               validWorld)))
   \<and> stdin (worldOf (intermediateStep sampleEnv sampleConfig typingWorld)) = []
   \<and> take 1 (newEvents
        (worldOf (getTokenCode ''arn:aws:iam::123:mfa/alice''
           (worldOf (mustSession sampleEnv (ProfileOptions ''eu-west-1'' ''base'')
              (worldOf (validateSessionToken sampleEnv (ProfileOptions ''eu-west-1'' ''mfa'')
                 typingWorld))))))
        (worldOf (intermediateStep sampleEnv sampleConfig typingWorld)))
      = [GetSessionTokenEv
           \<lparr>sessOptions = ProfileOptions ''eu-west-1'' ''base'', sessRegion = Some ''eu-west-1''\<rparr>
           43200 ''arn:aws:iam::123:mfa/alice'' (Some ''123456'')
           (Inr (sampleCredentials ''ASIAINTERMEDIATE''))]
   \<and> store (worldOf (intermediateStep sampleEnv sampleConfig typingWorld)) ''mfa''
      = Some (sampleCredentials ''ASIAINTERMEDIATE'', Some ''eu-west-1'')"
proof -
  let ?io = "ProfileOptions ''eu-west-1'' ''mfa''"
  let ?bo = "ProfileOptions ''eu-west-1'' ''base''"
  let ?serial = "''arn:aws:iam::123:mfa/alice''"
  let ?sb = "\<lparr>sessOptions = ?bo, sessRegion = Some ''eu-west-1''\<rparr>"
  have c: "region sampleConfig = ''eu-west-1''" "intermediateProfile sampleConfig = ''mfa''"
    "profile sampleConfig = ''base''" "tokenSerialNumber sampleConfig = ?serial"
    "intermediateDuration sampleConfig = 43200"
    by (simp_all add: sampleConfig_def)
  have serial: "tokenSerialNumber sampleConfig \<noteq> []" by (simp add: sampleConfig_def)
  let ?a1 = "worldOf (validateSessionToken sampleEnv ?io validWorld)"
  have va: "validateSessionToken sampleEnv
      (ProfileOptions (region sampleConfig) (intermediateProfile sampleConfig)) validWorld
        = Ret True ?a1"
    by (simp add: validateSessionToken_def mustSession_def Let_def emit_def sample_defs)
  note ta = mfa_intermediate_check_then_renew
    [OF serial, of sampleEnv validWorld ?a1, THEN conjunct1, THEN mp, OF va]
  from ta have A: "chain sampleEnv sampleConfig validWorld
     = targetStep sampleEnv sampleConfig (emit (Stdout (stillValidMessage ''base'')) ?a1)"
    unfolding c by blast
  let ?v1 = "worldOf (validateSessionToken sampleEnv ?io typingWorld)"
  let ?v2 = "worldOf (mustSession sampleEnv ?bo ?v1)"
  let ?v3 = "worldOf (getTokenCode ?serial ?v2)"
  have vb: "validateSessionToken sampleEnv
      (ProfileOptions (region sampleConfig) (intermediateProfile sampleConfig)) typingWorld
        = Ret False ?v1"
    by (simp add: validateSessionToken_def mustSession_def Let_def emit_def sample_defs)
  have mb: "mustSession sampleEnv (ProfileOptions (region sampleConfig) (profile sampleConfig))
      ?v1 = Ret ?sb ?v2"
    by (simp add: mustSession_def Let_def sampleEnv_def sampleConfig_def)
  have gb: "getTokenCode (tokenSerialNumber sampleConfig) ?v2 = Ret (Some ''123456'') ?v3"
    by (simp add: validateSessionToken_def mustSession_def getTokenCode_def readString_def
        trim_def Let_def emit_def sample_defs)
  have ab: "getSessionTokenApi sampleEnv ?v3 ?sb (intermediateDuration sampleConfig)
      (tokenSerialNumber sampleConfig) (Some ''123456'')
        = Inr (sampleCredentials ''ASIAINTERMEDIATE'')"
    by (simp add: sampleEnv_def)
  have hb: "validateSessionToken sampleEnv
      (ProfileOptions (region sampleConfig) (intermediateProfile sampleConfig)) typingWorld
        = Ret False ?v1
      \<and> mustSession sampleEnv (ProfileOptions (region sampleConfig) (profile sampleConfig))
          ?v1 = Ret ?sb ?v2
      \<and> getTokenCode (tokenSerialNumber sampleConfig) ?v2 = Ret (Some ''123456'') ?v3"
    using vb mb gb by blast
  note tb = mfa_intermediate_check_then_renew
    [OF serial, of sampleEnv typingWorld ?v1 ?sb ?v2 "Some ''123456''" ?v3,
      THEN conjunct2, THEN mp, OF hb]
  from tb have B1: "take 1 (newEvents ?v3 (worldOf (intermediateStep sampleEnv sampleConfig
      typingWorld))) =
      [GetSessionTokenEv ?sb (intermediateDuration sampleConfig) (tokenSerialNumber sampleConfig)
         (Some ''123456'')
         (getSessionTokenApi sampleEnv ?v3 ?sb (intermediateDuration sampleConfig)
            (tokenSerialNumber sampleConfig) (Some ''123456''))]"
    by blast
  from tb ab obtain w4 where
    w4: "intermediateStep sampleEnv sampleConfig typingWorld = Ret () w4"
      "store w4 = (store ?v3)(intermediateProfile sampleConfig \<mapsto>
         (sampleCredentials ''ASIAINTERMEDIATE'', Some (region sampleConfig)))"
    by blast
  have B2: "store (worldOf (intermediateStep sampleEnv sampleConfig typingWorld)) ''mfa''
      = Some (sampleCredentials ''ASIAINTERMEDIATE'', Some ''eu-west-1'')"
    unfolding w4(1) using w4(2) by (simp add: c)
  have B3: "stdin (worldOf (intermediateStep sampleEnv sampleConfig typingWorld)) = []"
    by (simp add: run_defs sample_defs)
  from B1 have B1': "take 1 (newEvents ?v3 (worldOf (intermediateStep sampleEnv sampleConfig
      typingWorld))) =
      [GetSessionTokenEv ?sb 43200 ?serial (Some ''123456'')
         (Inr (sampleCredentials ''ASIAINTERMEDIATE''))]"
    unfolding ab unfolding c .
  from A B1' B2 B3 show ?thesis by blast
qed

subsection \<open>Fatal provider errors\<close>

lemma ensureTargetProfile_no_identity:
  "getCallerIdentityApi env w sess = Inl err \<Longrightarrow>
   ensureTargetProfile env c sess w =
     Halt (Exit 1) (w\<lparr>trace := trace w @
       [GetCallerIdentityEv sess (Inl err),
        Stderr (''Error fetching caller id: '' @ err @ [LF])]\<rparr>)"
  by (simp add: ensureTargetProfile_def getCallerId_def die_def Let_def emit_def)

lemma ensureTargetProfile_no_role:
  "getCallerIdentityApi env w sess = Inr arn \<Longrightarrow>
   assumeRoleApi env (emit (GetCallerIdentityEv sess (Inr arn)) w) sess (roleArn c)
     (roleSessionNameOf arn) (targetDuration c) = Inl err \<Longrightarrow>
   ensureTargetProfile env c sess w =
     Halt (Exit 1) (w\<lparr>trace := trace w @
       [GetCallerIdentityEv sess (Inr arn),
        AssumeRoleEv sess (roleArn c) (roleSessionNameOf arn) (targetDuration c) (Inl err),
        Stderr (''Error assuming role: '' @ err @ [LF])]\<rparr>)"
  by (simp add: ensureTargetProfile_def getCallerId_def assumeRole_def die_def Let_def emit_def)

lemma mainLoop_target_halt:
  assumes "intermediateStep env c w = Ret () w0" and "targetSession env c w0 = Ret sess w1"
    and "ensureTargetProfile env c sess w1 = Halt out w'"
  shows "mainLoop (Suc n) env c w = (Some out, w')"
proof -
  have "targetStep env c w0 = Halt out w'"
    using assms(2,3) by (simp add: targetStep_def)
  then have "chain env c w = Halt out w'"
    using assms(1) by (simp add: chain_def)
  then show ?thesis by (rule mainLoop_halt)
qed

lemma mainLoop_no_session_token:
  assumes serial: "tokenSerialNumber c \<noteq> []"
    and v: "validateSessionToken env (ProfileOptions (region c) (intermediateProfile c)) w
            = Ret False wv"
    and m: "mustSession env (ProfileOptions (region c) (profile c)) wv = Ret sess w1"
    and g: "getTokenCode (tokenSerialNumber c) w1 = Ret code w2"
    and a: "getSessionTokenApi env w2 sess (intermediateDuration c) (tokenSerialNumber c) code
            = Inl err"
  shows "mainLoop (Suc n) env c w =
    (Some (Exit 1), w2\<lparr>trace := trace w2 @
       [GetSessionTokenEv sess (intermediateDuration c) (tokenSerialNumber c) code (Inl err),
        Stderr (''Error getting session token: '' @ err @ [LF])]\<rparr>)"
proof -
  have "ensureSessionTokenProfile env c w =
      Halt (Exit 1) (w2\<lparr>trace := trace w2 @
       [GetSessionTokenEv sess (intermediateDuration c) (tokenSerialNumber c) code (Inl err),
        Stderr (''Error getting session token: '' @ err @ [LF])]\<rparr>)"
    unfolding ensureSessionTokenProfile_renew [OF v m g] a by simp
  then have "chain env c w =
      Halt (Exit 1) (w2\<lparr>trace := trace w2 @
       [GetSessionTokenEv sess (intermediateDuration c) (tokenSerialNumber c) code (Inl err),
        Stderr (''Error getting session token: '' @ err @ [LF])]\<rparr>)"
    using serial by (simp add: chain_def intermediateStep_def)
  then show ?thesis by (rule mainLoop_halt)
qed

text \<open>
  C4. In any pass, whatever the fuel left for later passes: when the identity lookup
  of the assume-role step fails, when the role assumption fails, and when the
  session-token call fails, the process ends there with exit code 1; the world it ends
  in is the world of the failed call with nothing added but that call and one line on
  the error stream, made of the message, a colon and the error. No further call is
  made, and the store is as it was before the failed call, with every profile written
  earlier in the run still in it.
\<close>

theorem fatal_provider_error_exits:
  "(intermediateStep env c w = Ret () w0 \<and> targetSession env c w0 = Ret sess w1
      \<and> getCallerIdentityApi env w1 sess = Inl err \<longrightarrow>
      mainLoop (Suc n) env c w =
        (Some (Exit 1), w1\<lparr>trace := trace w1 @
           [GetCallerIdentityEv sess (Inl err),
            Stderr (''Error fetching caller id: '' @ err @ [LF])]\<rparr>))
   \<and> (intermediateStep env c w = Ret () w0 \<and> targetSession env c w0 = Ret sess w1
      \<and> getCallerIdentityApi env w1 sess = Inr arn
      \<and> assumeRoleApi env (emit (GetCallerIdentityEv sess (Inr arn)) w1) sess (roleArn c)
           (roleSessionNameOf arn) (targetDuration c) = Inl err \<longrightarrow>
      mainLoop (Suc n) env c w =
        (Some (Exit 1), w1\<lparr>trace := trace w1 @
           [GetCallerIdentityEv sess (Inr arn),
            AssumeRoleEv sess (roleArn c) (roleSessionNameOf arn) (targetDuration c) (Inl err),
            Stderr (''Error assuming role: '' @ err @ [LF])]\<rparr>))
   \<and> (tokenSerialNumber c \<noteq> []
      \<and> validateSessionToken env (ProfileOptions (region c) (intermediateProfile c)) w
           = Ret False wv
      \<and> mustSession env (ProfileOptions (region c) (profile c)) wv = Ret sess w1
      \<and> getTokenCode (tokenSerialNumber c) w1 = Ret code w2
      \<and> getSessionTokenApi env w2 sess (intermediateDuration c) (tokenSerialNumber c) code
           = Inl err \<longrightarrow>
      mainLoop (Suc n) env c w =
        (Some (Exit 1), w2\<lparr>trace := trace w2 @
           [GetSessionTokenEv sess (intermediateDuration c) (tokenSerialNumber c) code (Inl err),
            Stderr (''Error getting session token: '' @ err @ [LF])]\<rparr>))"
proof (intro conjI)
  show "intermediateStep env c w = Ret () w0 \<and> targetSession env c w0 = Ret sess w1
      \<and> getCallerIdentityApi env w1 sess = Inl err \<longrightarrow>
      mainLoop (Suc n) env c w =
        (Some (Exit 1), w1\<lparr>trace := trace w1 @
           [GetCallerIdentityEv sess (Inl err),
            Stderr (''Error fetching caller id: '' @ err @ [LF])]\<rparr>)"
  proof (rule impI, elim conjE)
    assume i: "intermediateStep env c w = Ret () w0" and s: "targetSession env c w0 = Ret sess w1"
      and e: "getCallerIdentityApi env w1 sess = Inl err"
    from i s ensureTargetProfile_no_identity [OF e]
    show "mainLoop (Suc n) env c w =
        (Some (Exit 1), w1\<lparr>trace := trace w1 @
           [GetCallerIdentityEv sess (Inl err),
            Stderr (''Error fetching caller id: '' @ err @ [LF])]\<rparr>)"
      by (rule mainLoop_target_halt)
  qed
  show "intermediateStep env c w = Ret () w0 \<and> targetSession env c w0 = Ret sess w1
      \<and> getCallerIdentityApi env w1 sess = Inr arn
      \<and> assumeRoleApi env (emit (GetCallerIdentityEv sess (Inr arn)) w1) sess (roleArn c)
           (roleSessionNameOf arn) (targetDuration c) = Inl err \<longrightarrow>
      mainLoop (Suc n) env c w =
        (Some (Exit 1), w1\<lparr>trace := trace w1 @
           [GetCallerIdentityEv sess (Inr arn),
            AssumeRoleEv sess (roleArn c) (roleSessionNameOf arn) (targetDuration c) (Inl err),
            Stderr (''Error assuming role: '' @ err @ [LF])]\<rparr>)"
  proof (rule impI, elim conjE)
    assume i: "intermediateStep env c w = Ret () w0" and s: "targetSession env c w0 = Ret sess w1"
      and g: "getCallerIdentityApi env w1 sess = Inr arn"
      and e: "assumeRoleApi env (emit (GetCallerIdentityEv sess (Inr arn)) w1) sess (roleArn c)
           (roleSessionNameOf arn) (targetDuration c) = Inl err"
    from i s ensureTargetProfile_no_role [OF g e]
    show "mainLoop (Suc n) env c w =
        (Some (Exit 1), w1\<lparr>trace := trace w1 @
           [GetCallerIdentityEv sess (Inr arn),
            AssumeRoleEv sess (roleArn c) (roleSessionNameOf arn) (targetDuration c) (Inl err),
            Stderr (''Error assuming role: '' @ err @ [LF])]\<rparr>)"
      by (rule mainLoop_target_halt)
  qed
  show "tokenSerialNumber c \<noteq> []
      \<and> validateSessionToken env (ProfileOptions (region c) (intermediateProfile c)) w
           = Ret False wv
      \<and> mustSession env (ProfileOptions (region c) (profile c)) wv = Ret sess w1
      \<and> getTokenCode (tokenSerialNumber c) w1 = Ret code w2
      \<and> getSessionTokenApi env w2 sess (intermediateDuration c) (tokenSerialNumber c) code
           = Inl err \<longrightarrow>
      mainLoop (Suc n) env c w =
        (Some (Exit 1), w2\<lparr>trace := trace w2 @
           [GetSessionTokenEv sess (intermediateDuration c) (tokenSerialNumber c) code (Inl err),
            Stderr (''Error getting session token: '' @ err @ [LF])]\<rparr>)"
    using mainLoop_no_session_token by blast
qed

theorem fatal_provider_error_exits_witness:
  "fst (mainLoop (Suc (Suc 0)) noIdentityEnv (sampleConfig\<lparr>tokenSerialNumber := []\<rparr>)
          emptyWorld) = Some (Exit 1)
   \<and> last (trace (snd (mainLoop (Suc (Suc 0)) noIdentityEnv
          (sampleConfig\<lparr>tokenSerialNumber := []\<rparr>) emptyWorld)))
       = Stderr (''Error fetching caller id: ExpiredToken'' @ [LF])
   \<and> fst (mainLoop (Suc (Suc 0)) noRoleEnv (sampleConfig\<lparr>renew := True\<rparr>) typingWorld)
       = Some (Exit 1)
   \<and> last (trace (snd (mainLoop (Suc (Suc 0)) noRoleEnv (sampleConfig\<lparr>renew := True\<rparr>)
          typingWorld)))
       = Stderr (''Error assuming role: AccessDenied'' @ [LF])
   \<and> store (snd (mainLoop (Suc (Suc 0)) noRoleEnv (sampleConfig\<lparr>renew := True\<rparr>)
          typingWorld)) ''mfa''
       = Some (sampleCredentials ''ASIAINTERMEDIATE'', Some ''eu-west-1'')
   \<and> fst (mainLoop (Suc (Suc 0)) sampleEnv (sampleConfig\<lparr>renew := True\<rparr>) blankWorld)
       = Some (Exit 1)
   \<and> last (trace (snd (mainLoop (Suc (Suc 0)) sampleEnv (sampleConfig\<lparr>renew := True\<rparr>)
          blankWorld)))
       = Stderr (''Error getting session token: AccessDenied'' @ [LF])"
proof -
  let ?arn = "''arn:aws:iam::123:user/alice''"
  \<comment> \<open>the identity lookup fails\<close>
  let ?ca = "sampleConfig\<lparr>tokenSerialNumber := []\<rparr>"
  let ?sa = "\<lparr>sessOptions = ProfileOptions ''eu-west-1'' ''base'', sessRegion = Some ''eu-west-1''\<rparr>"
  let ?a1 = "worldOf (targetSession noIdentityEnv ?ca emptyWorld)"
  have ha: "intermediateStep noIdentityEnv ?ca emptyWorld = Ret () emptyWorld
      \<and> targetSession noIdentityEnv ?ca emptyWorld = Ret ?sa ?a1
      \<and> getCallerIdentityApi noIdentityEnv ?a1 ?sa = Inl ''ExpiredToken''"
    by (simp add: intermediateStep_def targetSession_def baseProfile_def mustSession_def
        Let_def sample_defs)
  note ta = fatal_provider_error_exits [THEN conjunct1, THEN mp, OF ha]
  have A: "mainLoop (Suc (Suc 0)) noIdentityEnv ?ca emptyWorld =
      (Some (Exit 1), ?a1\<lparr>trace := trace ?a1 @
         [GetCallerIdentityEv ?sa (Inl ''ExpiredToken''),
          Stderr (''Error fetching caller id: '' @ ''ExpiredToken'' @ [LF])]\<rparr>)"
    by (rule ta)
  \<comment> \<open>the role assumption fails after the intermediate profile was written\<close>
  let ?cb = "sampleConfig\<lparr>renew := True\<rparr>"
  let ?sb = "\<lparr>sessOptions = ProfileOptions ''eu-west-1'' ''mfa'', sessRegion = Some ''eu-west-1''\<rparr>"
  let ?b0 = "worldOf (intermediateStep noRoleEnv ?cb typingWorld)"
  let ?b1 = "worldOf (targetSession noRoleEnv ?cb ?b0)"
  have b0: "intermediateStep noRoleEnv ?cb typingWorld = Ret () ?b0"
    by (simp add: run_defs sample_defs)
  have st: "store ?b0 ''mfa'' = Some (sampleCredentials ''ASIAINTERMEDIATE'', Some ''eu-west-1'')"
    by (simp add: run_defs sample_defs)
  have b1: "targetSession noRoleEnv ?cb ?b0 = Ret ?sb ?b1"
    by (simp add: targetSession_def baseProfile_def mustSession_def Let_def sample_defs)
  have st1: "store ?b1 = store ?b0"
    by (simp add: targetSession_def baseProfile_def mustSession_def Let_def sample_defs)
  have api: "getCallerIdentityApi noRoleEnv x ?sb
      = (if store x ''mfa'' \<noteq> None then Inr ?arn else Inl ''ExpiredToken'')" for x
    by (simp add: noRoleEnv_def sampleEnv_def)
  have bg: "getCallerIdentityApi noRoleEnv ?b1 ?sb = Inr ?arn"
    unfolding api st1 st by simp
  have be: "assumeRoleApi noRoleEnv (emit (GetCallerIdentityEv ?sb (Inr ?arn)) ?b1) ?sb
      (roleArn ?cb) (roleSessionNameOf ?arn) (targetDuration ?cb) = Inl ''AccessDenied''"
    by (simp add: noRoleEnv_def)
  have hb: "intermediateStep noRoleEnv ?cb typingWorld = Ret () ?b0
      \<and> targetSession noRoleEnv ?cb ?b0 = Ret ?sb ?b1
      \<and> getCallerIdentityApi noRoleEnv ?b1 ?sb = Inr ?arn
      \<and> assumeRoleApi noRoleEnv (emit (GetCallerIdentityEv ?sb (Inr ?arn)) ?b1) ?sb
          (roleArn ?cb) (roleSessionNameOf ?arn) (targetDuration ?cb) = Inl ''AccessDenied''"
    using b0 b1 bg be by blast
  note tb = fatal_provider_error_exits [THEN conjunct2, THEN conjunct1, THEN mp, OF hb]
  have B: "mainLoop (Suc (Suc 0)) noRoleEnv ?cb typingWorld =
      (Some (Exit 1), ?b1\<lparr>trace := trace ?b1 @
         [GetCallerIdentityEv ?sb (Inr ?arn),
          AssumeRoleEv ?sb (roleArn ?cb) (roleSessionNameOf ?arn) (targetDuration ?cb)
            (Inl ''AccessDenied''),
          Stderr (''Error assuming role: '' @ ''AccessDenied'' @ [LF])]\<rparr>)"
    by (rule tb)
  \<comment> \<open>the session-token call fails\<close>
  let ?io = "ProfileOptions ''eu-west-1'' ''mfa''"
  let ?bo = "ProfileOptions ''eu-west-1'' ''base''"
  let ?sc = "\<lparr>sessOptions = ?bo, sessRegion = Some ''eu-west-1''\<rparr>"
  let ?serial = "''arn:aws:iam::123:mfa/alice''"
  let ?v = "worldOf (validateSessionToken sampleEnv ?io blankWorld)"
  let ?c1 = "worldOf (mustSession sampleEnv ?bo ?v)"
  let ?c2 = "worldOf (getTokenCode ?serial ?c1)"
  have cc: "region ?cb = ''eu-west-1''" "intermediateProfile ?cb = ''mfa''"
    "profile ?cb = ''base''" "tokenSerialNumber ?cb = ?serial"
    by (simp_all add: sampleConfig_def)
  have hc: "tokenSerialNumber ?cb \<noteq> []
      \<and> validateSessionToken sampleEnv (ProfileOptions (region ?cb) (intermediateProfile ?cb))
          blankWorld = Ret False ?v
      \<and> mustSession sampleEnv (ProfileOptions (region ?cb) (profile ?cb)) ?v = Ret ?sc ?c1
      \<and> getTokenCode (tokenSerialNumber ?cb) ?c1 = Ret (Some []) ?c2
      \<and> getSessionTokenApi sampleEnv ?c2 ?sc (intermediateDuration ?cb) (tokenSerialNumber ?cb)
          (Some []) = Inl ''AccessDenied''"
    unfolding cc
    by (simp add: validateSessionToken_def mustSession_def getTokenCode_def readString_def
        trim_def Let_def emit_def sample_defs)
  note tc = fatal_provider_error_exits [THEN conjunct2, THEN conjunct2, THEN mp, OF hc]
  have C: "mainLoop (Suc (Suc 0)) sampleEnv ?cb blankWorld =
      (Some (Exit 1), ?c2\<lparr>trace := trace ?c2 @
         [GetSessionTokenEv ?sc (intermediateDuration ?cb) (tokenSerialNumber ?cb) (Some [])
            (Inl ''AccessDenied''),
          Stderr (''Error getting session token: '' @ ''AccessDenied'' @ [LF])]\<rparr>)"
    by (rule tc)
  show ?thesis unfolding A B C by (simp add: st1 st)
qed

end
